theory Spec2Isabelle
  imports Main
begin

section \<open>Errors and outcomes\<close>

text \<open>
  Every failure of \<^verbatim>\<open>easybuild/tools/filetools.py\<close> goes through \<^verbatim>\<open>log.error\<close>
  (or \<^verbatim>\<open>log.exception\<close>) of \<^verbatim>\<open>easybuild.tools.build_log\<close>, or is a Python
  built-in exception. The constructors below name the failure sites; the built-in
  exceptions keep their Python names.
\<close>

datatype error =
    UnknownFormat
  | MissingFile
  | MissingDirectory
  | ChdirFailed
  | CopyFailed
  | ReadFailed
  | PatchLevelUndetermined
  | PatchFailed
  | ProcessSpawnError
  | LogFileError
  | QuestionMismatch
  | HangTimeout string
  | NonZeroExit
  | InvalidRegExp
  | ReError
  | IndexError
  | TypeError
  | IOError

text \<open>
  Modelled from the spec: \<^verbatim>\<open>log.error\<close> and \<^verbatim>\<open>log.exception\<close> belong to
  \<^verbatim>\<open>easybuild.tools.build_log\<close>, which is not among the sources. The spec's error
  design reports each of these failures to the immediate caller, so a call of
  \<^verbatim>\<open>log.error\<close> ends the running operation with the error of its site.

  A call either returns a value, raises, or is still inside one of its loops when the
  observations (or the fuel) given to the model are used up.
\<close>

datatype 'a outcome = Returns 'a | Raises error | Running

section \<open>Strings as Python has them\<close>

definition newline :: char where
  "newline = CHR 0x0A"

definition backslash :: char where
  "backslash = CHR 0x5C"

text \<open>\<^verbatim>\<open>s.split(c)\<close> for a one-character separator: empty pieces are kept.\<close>

fun split_on :: "char \<Rightarrow> string \<Rightarrow> string list" where
  "split_on c [] = [[]]"
| "split_on c (x # xs) =
     (if x = c then [] # split_on c xs
      else (case split_on c xs of [] \<Rightarrow> [[x]] | y # ys \<Rightarrow> (x # y) # ys))"

text \<open>\<^verbatim>\<open>c.join(xs)\<close>.\<close>

fun join :: "string \<Rightarrow> string list \<Rightarrow> string" where
  "join sep [] = []"
| "join sep [x] = x"
| "join sep (x # y # ys) = x @ sep @ join sep (y # ys)"

text \<open>\<^verbatim>\<open>s.lower()\<close> on a byte string: the letters A to Z move to a to z.\<close>

definition lower_char :: "char \<Rightarrow> char" where
  "lower_char c =
     (let n = (of_char c :: nat) in if 65 \<le> n \<and> n \<le> 90 then char_of (n + 32) else c)"

definition lower :: "string \<Rightarrow> string" where
  "lower s = map lower_char s"

text \<open>
  \<^verbatim>\<open>template % arg\<close> for a string argument and a template whose only conversion is
  \<^verbatim>\<open>%s\<close>: the first \<^verbatim>\<open>%s\<close> is replaced by the argument.
\<close>

fun percent_s :: "string \<Rightarrow> string \<Rightarrow> string" where
  "percent_s [] arg = []"
| "percent_s [c] arg = [c]"
| "percent_s (c # d # cs) arg =
     (if c = CHR ''%'' \<and> d = CHR ''s'' then arg @ cs else c # percent_s (d # cs) arg)"

text \<open>A negative index into a list: \<^verbatim>\<open>ff[-1]\<close> and \<^verbatim>\<open>ff[-2]\<close>.\<close>

definition last1 :: "'a list \<Rightarrow> error + 'a" where
  "last1 xs = (if length xs < 1 then Inl IndexError else Inr (xs ! (length xs - 1)))"

definition last2 :: "'a list \<Rightarrow> error + 'a" where
  "last2 xs = (if length xs < 2 then Inl IndexError else Inr (xs ! (length xs - 2)))"

section \<open>Archive inspector: extractCmd\<close>

text \<open>
  The first \<^verbatim>\<open>if\<close> of \<^verbatim>\<open>extractCmd\<close> and the one for \<^verbatim>\<open>bz2\<close> read
  \<^verbatim>\<open>ff[-2]\<close> after the template of the bare suffix was assigned.
\<close>

definition suffix_with_tar ::
  "string list \<Rightarrow> string \<Rightarrow> string \<Rightarrow> string \<Rightarrow> string option \<Rightarrow> error + string option"
where
  "suffix_with_tar ff suf bare tarred ftype =
     (case last1 ff of
        Inl e \<Rightarrow> Inl e
      | Inr l \<Rightarrow>
          if l = suf then
            (case last2 ff of
               Inl e \<Rightarrow> Inl e
             | Inr l2 \<Rightarrow> if l2 = ''tar'' then Inr (Some tarred) else Inr (Some bare))
          else Inr ftype)"

definition pick_template :: "string \<Rightarrow> bool \<Rightarrow> string option \<Rightarrow> string option" where
  "pick_template l overwrite t3 =
     (let t4 = (if l = ''tbz'' then Some ''tar xfj %s'' else t3);
          t5 = (if l = ''tar'' then Some ''tar xf %s'' else t4)
      in if l = ''zip''
         then (if overwrite then Some ''unzip -qq -o %s'' else Some ''unzip -qq %s'')
         else t5)"

definition extractCmd :: "string \<Rightarrow> bool \<Rightarrow> error + string" where
  "extractCmd fn overwrite =
     (let ff = map lower (split_on CHR ''.'' fn) in
      (case suffix_with_tar ff ''gz'' ''gunzip %s'' ''tar xzf %s'' None of
         Inl e \<Rightarrow> Inl e
       | Inr t1 \<Rightarrow>
          (case last1 ff of
             Inl e \<Rightarrow> Inl e
           | Inr l \<Rightarrow>
              (case suffix_with_tar ff ''bz2'' ''bunzip2 %s'' ''tar xjf %s''
                      (if l = ''tgz'' \<or> l = ''gtgz'' then Some ''tar xzf %s'' else t1) of
                 Inl e \<Rightarrow> Inl e
               | Inr t3 \<Rightarrow>
                  (case pick_template l overwrite t3 of
                     None \<Rightarrow> Inl UnknownFormat
                   | Some ftype \<Rightarrow> Inr (percent_s ftype fn))))))"

section \<open>The file system and the process-wide state\<close>

text \<open>
  The file system is what \<^verbatim>\<open>os\<close>, \<^verbatim>\<open>os.path\<close> and \<^verbatim>\<open>shutil\<close> answer. Paths given
  to these functions are resolved against the working directory with the rule of
  \<^verbatim>\<open>os.path.join\<close>; \<^verbatim>\<open>os.getcwd()\<close> is the path of the last \<^verbatim>\<open>os.chdir\<close>.
\<close>

record filesys =
  isfile :: "string \<Rightarrow> bool"
  isdir :: "string \<Rightarrow> bool"
  listdir :: "string \<Rightarrow> string list"
  normpath :: "string \<Rightarrow> string"
  chdir_ok :: "string \<Rightarrow> bool"
  makedirs_ok :: "string \<Rightarrow> bool"
  copy_ok :: "string \<Rightarrow> string \<Rightarrow> bool"
  file_lines :: "string \<Rightarrow> string list option"

text \<open>\<^verbatim>\<open>os.path.join(a, b)\<close> for two components.\<close>

definition path_join :: "string \<Rightarrow> string \<Rightarrow> string" where
  "path_join a b =
     (if b \<noteq> [] \<and> hd b = CHR ''/'' then b
      else if a = [] \<or> last a = CHR ''/'' then a @ b
      else a @ ''/'' @ b)"

definition abspath :: "filesys \<Rightarrow> string \<Rightarrow> string \<Rightarrow> string" where
  "abspath f wd p = normpath f (path_join wd p)"

definition py_isfile :: "filesys \<Rightarrow> string \<Rightarrow> string \<Rightarrow> bool" where
  "py_isfile f wd p = (p \<noteq> [] \<and> isfile f (path_join wd p))"

definition py_isdir :: "filesys \<Rightarrow> string \<Rightarrow> string \<Rightarrow> bool" where
  "py_isdir f wd p = (p \<noteq> [] \<and> isdir f (path_join wd p))"

datatype kill_call = Killpg | Kill

text \<open>
  What a call can change outside its own variables: the working directory, the commands
  handed to the shell, what was written to children, the kill calls made, and the
  module-level counter \<^verbatim>\<open>errorsFoundInLog\<close>.
\<close>

record world =
  cwd :: string
  launched :: "string list"
  stdin_data :: "string list"
  kills :: "kill_call list"
  errorsFoundInLog :: nat

section \<open>Directory resolver: findBaseDir\<close>

definition ignoreDirs :: "string list" where
  "ignoreDirs = [''easybuildlog'']"

definition getLocalDirsPurged :: "filesys \<Rightarrow> string \<Rightarrow> string list" where
  "getLocalDirsPurged f wd = fold remove1 ignoreDirs (listdir f wd)"

text \<open>
  The \<^verbatim>\<open>while len(lst) == 1\<close> loop, with the working directory passed along. The
  first argument bounds the number of descents; the pair returned is the working
  directory at the end and the outcome.
\<close>

fun findBaseDir_loop ::
  "nat \<Rightarrow> filesys \<Rightarrow> string \<Rightarrow> string list \<Rightarrow> string \<Rightarrow> string \<times> string outcome"
where
  "findBaseDir_loop 0 f wd lst newDir =
     (if length lst = 1 then (wd, Running) else (wd, Returns newDir))"
| "findBaseDir_loop (Suc n) f wd lst newDir =
     (if length lst = 1 then
        (let newDir' = path_join wd (lst ! 0) in
         if \<not> isdir f newDir' then (wd, Returns newDir')
         else if \<not> chdir_ok f newDir' then (wd, Raises ChdirFailed)
         else findBaseDir_loop n f newDir' (getLocalDirsPurged f newDir') newDir')
      else (wd, Returns newDir))"

definition findBaseDir :: "nat \<Rightarrow> filesys \<Rightarrow> string \<Rightarrow> string \<times> string outcome" where
  "findBaseDir fuel f wd = findBaseDir_loop fuel f wd (getLocalDirsPurged f wd) wd"

section \<open>Output error scanner: parselogForError\<close>

text \<open>
  Python's \<^verbatim>\<open>re\<close> module is a parameter of the model: \<open>re_search icase p s\<close> is
  \<^verbatim>\<open>re.compile(p, flags).search(s)\<close>, the groups of the match or nothing; \<open>icase\<close>
  stands for the flag \<^verbatim>\<open>re.I\<close>. The patterns that \<^verbatim>\<open>run_cmd_qa\<close> compiles for its
  tables are taken to compile.
\<close>

type_synonym groups = "string option list"
type_synonym regex = "bool \<Rightarrow> string \<Rightarrow> string \<Rightarrow> groups option"

text \<open>
  What a runner finds around it: the SuSE profile hack (whether \<^verbatim>\<open>PROFILEREAD\<close> is set
  and not empty, whether \<^verbatim>\<open>/etc/profile.d/modules.sh\<close> exists), whether the log file can
  be opened, and the patterns that \<^verbatim>\<open>re.compile\<close> accepts; on any other pattern
  \<^verbatim>\<open>re.compile\<close> raises.
\<close>

record sysenv =
  profileread :: bool
  modules_sh :: bool
  tmpfile_ok :: bool
  re_compiles :: "string \<Rightarrow> bool"

text \<open>
  The argument \<^verbatim>\<open>regexp\<close> (\<^verbatim>\<open>regExp\<close> in the scanner): \<^verbatim>\<open>None\<close>, a boolean, a byte
  string, or a true value of another type, such as a unicode string or a compiled
  pattern. A false value of another type goes the way of \<^verbatim>\<open>None\<close>: the runners do not
  scan and the scanner calls \<^verbatim>\<open>log.error\<close>.
\<close>

datatype regexp_arg = RNone | RBool bool | RStr string | ROther

definition default_regexp :: string where
  "default_regexp =
     ''(?<![(,]|'' @ [backslash] @ ''w)(?:error|segmentation fault|failed)(?![(,]|''
       @ [backslash] @ ''.?'' @ [backslash] @ ''w)''"

definition truthy_regexp :: "regexp_arg \<Rightarrow> bool" where
  "truthy_regexp r =
     (case r of RNone \<Rightarrow> False | RBool b \<Rightarrow> b | RStr s \<Rightarrow> s \<noteq> [] | ROther \<Rightarrow> True)"

text \<open>The loop over \<^verbatim>\<open>txt.split('\n')\<close>: the matches so far and the counter.\<close>

fun scan_lines ::
  "(string \<Rightarrow> groups option) \<Rightarrow> string list \<Rightarrow> (string \<times> groups) list \<Rightarrow> nat
     \<Rightarrow> (string \<times> groups) list \<times> nat"
where
  "scan_lines srch [] res cnt = (res, cnt)"
| "scan_lines srch (l # ls) res cnt =
     (case srch l of
        None \<Rightarrow> scan_lines srch ls res cnt
      | Some g \<Rightarrow> scan_lines srch ls (res @ [(l, g)]) (Suc cnt))"

text \<open>
  The scanner: \<^verbatim>\<open>log.error\<close> for an argument that is neither the boolean true nor a
  string, then \<^verbatim>\<open>re.compile(regExp, re.I)\<close>, which raises on a pattern it does not
  accept, then the loop.
\<close>

definition parselogForError ::
  "sysenv \<Rightarrow> regex \<Rightarrow> string \<Rightarrow> regexp_arg \<Rightarrow> world
     \<Rightarrow> world \<times> (string \<times> groups) list outcome"
where
  "parselogForError e re txt regExp w =
     (case (case regExp of
              RBool True \<Rightarrow> Some default_regexp
            | RStr s \<Rightarrow> Some s
            | _ \<Rightarrow> None) of
        None \<Rightarrow> (w, Raises InvalidRegExp)
      | Some rx \<Rightarrow>
          if \<not> re_compiles e rx then (w, Raises ReError)
          else
            (case scan_lines (re True rx) (split_on newline txt) [] (errorsFoundInLog w) of
               (res, cnt) \<Rightarrow> (w\<lparr>errorsFoundInLog := cnt\<rparr>, Returns res)))"

section \<open>Child processes\<close>

text \<open>
  What one child process shows to the runner: whether it could be started, the first
  \<^verbatim>\<open>p.poll()\<close>, then for each turn of the polling loop the data read (nothing when the
  read raised) and the \<^verbatim>\<open>p.poll()\<close> after the sleep, the data of the final read, and
  whether \<^verbatim>\<open>os.killpg\<close> succeeds. A poll is the exit code, or nothing while the
  child runs.
\<close>

record proc =
  spawn_ok :: bool
  poll0 :: "int option"
  rounds :: "(string option \<times> int option) list"
  final_read :: "string option"
  killpg_ok :: bool

text \<open>
  \<^verbatim>\<open>while ec < 0\<close>: in Python 2 \<^verbatim>\<open>None < 0\<close> holds, and so does a negative code (a
  child ended by a signal).
\<close>

definition loop_goes_on :: "int option \<Rightarrow> bool" where
  "loop_goes_on ec = (case ec of None \<Rightarrow> True | Some c \<Rightarrow> c < 0)"

definition ec_value :: "int option \<Rightarrow> int" where
  "ec_value ec = (case ec of None \<Rightarrow> 0 | Some c \<Rightarrow> c)"

definition suse_hack :: "sysenv \<Rightarrow> string \<Rightarrow> error + string" where
  "suse_hack e cmd =
     (if profileread e then
        (if \<not> modules_sh e then Inl MissingFile
         else Inr (''. /etc/profile.d/modules.sh && '' @ '' '' @ cmd))
      else Inr cmd)"

datatype pyval = PBool bool | PPair string int | PStr string

definition result_shape :: "bool \<Rightarrow> string \<Rightarrow> int \<Rightarrow> pyval" where
  "result_shape simple out ec =
     (if simple then (if ec \<noteq> 0 then PBool False else PBool True) else PPair out ec)"

text \<open>
  The end shared by both runners: the error for a non-zero exit code, the scan of the
  output, the result.
\<close>

definition finish_run ::
  "sysenv \<Rightarrow> regex \<Rightarrow> bool \<Rightarrow> bool \<Rightarrow> bool \<Rightarrow> regexp_arg \<Rightarrow> string \<Rightarrow> int \<Rightarrow> world
     \<Rightarrow> world \<times> pyval outcome"
where
  "finish_run e re log_ok log_all simple regexp out ec w =
     (if ec \<noteq> 0 \<and> (log_all \<or> log_ok) then (w, Raises NonZeroExit)
      else if truthy_regexp regexp then
        (case parselogForError e re out regexp w of
           (w', Returns res) \<Rightarrow> (w', Returns (result_shape simple out ec))
         | (w', Raises err) \<Rightarrow> (w', Raises err)
         | (w', Running) \<Rightarrow> (w', Running))
      else (w, Returns (result_shape simple out ec)))"

section \<open>Blocking command runner: run_cmd\<close>

text \<open>The \<^verbatim>\<open>while ec < 0\<close> loop of \<^verbatim>\<open>run_cmd\<close>: the output so far and the last poll.\<close>

fun drain ::
  "string \<Rightarrow> int option \<Rightarrow> (string option \<times> int option) list \<Rightarrow> (string \<times> int) outcome"
where
  "drain out ec [] = (if loop_goes_on ec then Running else Returns (out, ec_value ec))"
| "drain out ec ((r, ec') # rest) =
     (if loop_goes_on ec then
        (case r of None \<Rightarrow> Raises IOError | Some output \<Rightarrow> drain (out @ output) ec' rest)
      else Returns (out, ec_value ec))"

definition run_cmd ::
  "regex \<Rightarrow> sysenv \<Rightarrow> proc \<Rightarrow> string \<Rightarrow> bool \<Rightarrow> bool \<Rightarrow> bool \<Rightarrow> string option
     \<Rightarrow> regexp_arg \<Rightarrow> bool \<Rightarrow> world \<Rightarrow> world \<times> pyval outcome"
where
  "run_cmd re e p cmd log_ok log_all simple inp regexp log_output w =
     (if log_output \<and> \<not> tmpfile_ok e then (w, Raises IOError)
      else
        (case suse_hack e cmd of
           Inl err \<Rightarrow> (w, Raises err)
         | Inr cmd' \<Rightarrow>
            if \<not> spawn_ok p then (w, Raises ProcessSpawnError)
            else
              (let w1 = w\<lparr>launched := launched w @ [cmd']\<rparr>;
                   w2 = (case inp of
                           None \<Rightarrow> w1
                         | Some i \<Rightarrow> if i = [] then w1 else w1\<lparr>stdin_data := stdin_data w1 @ [i]\<rparr>)
               in (case drain [] (poll0 p) (rounds p) of
                     Running \<Rightarrow> (w2, Running)
                   | Raises err \<Rightarrow> (w2, Raises err)
                   | Returns (out, ec) \<Rightarrow>
                      (case final_read p of
                         None \<Rightarrow> (w2, Raises IOError)
                       | Some t \<Rightarrow>
                          finish_run e re log_ok log_all simple regexp (out @ t) ec w2)))))"

section \<open>Interactive command runner: run_cmd_qa\<close>

subsection \<open>Part 1: the tables of questions and answers\<close>

text \<open>The characters \<^verbatim>\<open>\s\<close> matches in a byte string.\<close>

definition is_space :: "char \<Rightarrow> bool" where
  "is_space c = ((of_char c :: nat) \<in> {9, 10, 11, 12, 13, 32})"

text \<open>
  \<^verbatim>\<open>regSplit.split(q)\<close>, the split of a string at every run of white space; the flag
  says that the character before was white space.
\<close>

fun split_ws_aux :: "bool \<Rightarrow> string \<Rightarrow> string list" where
  "split_ws_aux in_ws [] = [[]]"
| "split_ws_aux in_ws (c # cs) =
     (if is_space c then (if in_ws then split_ws_aux True cs else [] # split_ws_aux True cs)
      else (case split_ws_aux False cs of [] \<Rightarrow> [[c]] | x # xs \<Rightarrow> (c # x) # xs))"

definition regSplit_split :: "string \<Rightarrow> string list" where
  "regSplit_split q = split_ws_aux False q"

definition special_chars :: "char list" where
  "special_chars = ''+?()[]*.'' @ [backslash]"

definition escapeSpecial :: "string \<Rightarrow> string" where
  "escapeSpecial s = concat (map (\<lambda>c. if c \<in> set special_chars then [backslash, c] else [c]) s)"

text \<open>
  The string \<^verbatim>\<open>split\<close> of the source is written without the raw prefix, so its
  \<^verbatim>\<open>\n\<close> is the newline character; the suffixes of the standard and no-progress
  patterns are raw strings.
\<close>

definition split_txt :: string where
  "split_txt = ''['' @ [backslash] @ ''s'' @ [newline] @ '']+''"

definition raw_end_txt :: string where
  "raw_end_txt = ''['' @ [backslash] @ ''s'' @ [backslash] @ ''n]*$''"

fun rstrip_plus :: "string \<Rightarrow> string" where
  "rstrip_plus s = rev (dropWhile (\<lambda>c. c = CHR ''+'') (rev s))"

definition endswith_newline :: "string \<Rightarrow> bool" where
  "endswith_newline a = (a \<noteq> [] \<and> last a = newline)"

text \<open>\<^verbatim>\<open>if not a.endswith('\n'): a += '\n'\<close>\<close>

definition add_newline :: "string \<Rightarrow> string" where
  "add_newline a = (if \<not> endswith_newline a then a @ [newline] else a)"

definition processQA :: "regex \<Rightarrow> string \<Rightarrow> string \<Rightarrow> error + (string \<times> string)" where
  "processQA re q a =
     (let splitq = map escapeSpecial (regSplit_split q);
          regQtxt = join split_txt splitq @ rstrip_plus split_txt @ ''*$'';
          a' = add_newline a
      in if re False regQtxt q \<noteq> None then Inr (a', regQtxt) else Inl QuestionMismatch)"

text \<open>
  A dictionary keyed by pattern objects, kept as an association list on the pattern
  text: storing under a key that is there replaces its value. The order of the list
  stands for the order in which \<^verbatim>\<open>items()\<close> yields the entries.
\<close>

fun dict_set :: "string \<Rightarrow> string \<Rightarrow> (string \<times> string) list \<Rightarrow> (string \<times> string) list" where
  "dict_set k v [] = [(k, v)]"
| "dict_set k v ((k', v') # d) = (if k' = k then (k, v) # d else (k', v') # dict_set k v d)"

fun build_newQA ::
  "regex \<Rightarrow> (string \<times> string) list \<Rightarrow> (string \<times> string) list
     \<Rightarrow> error + (string \<times> string) list"
where
  "build_newQA re [] newQA = Inr newQA"
| "build_newQA re ((question, answer) # qa) newQA =
     (case processQA re question answer of
        Inl e \<Rightarrow> Inl e
      | Inr (a, regQ) \<Rightarrow> build_newQA re qa (dict_set regQ a newQA))"

fun build_newstdQA ::
  "(string \<times> string) list \<Rightarrow> (string \<times> string) list \<Rightarrow> (string \<times> string) list"
where
  "build_newstdQA [] newstdQA = newstdQA"
| "build_newstdQA ((question, answer) # std_qa) newstdQA =
     build_newstdQA std_qa (dict_set (question @ raw_end_txt) (add_newline answer) newstdQA)"

definition build_new_no_qa :: "string list \<Rightarrow> string list" where
  "build_new_no_qa no_qa = map (\<lambda>x. x @ raw_end_txt) no_qa"

record qa_tables =
  newQA :: "(string \<times> string) list"
  newstdQA :: "(string \<times> string) list"
  new_no_qa :: "string list"

subsection \<open>Part 2: the polling loop\<close>

definition maxHitCount :: nat where
  "maxHitCount = 20"

text \<open>
  The variables of the loop, with the answers sent through \<^verbatim>\<open>send_all\<close> and the kill
  calls made so far.
\<close>

record session =
  stdoutErr :: string
  oldLenOut :: int
  hitCount :: nat
  answers_sent :: "string list"
  kill_calls :: "kill_call list"

text \<open>\<^verbatim>\<open>s[-n:]\<close> for a positive \<open>n\<close>.\<close>

definition last_n :: "nat \<Rightarrow> string \<Rightarrow> string" where
  "last_n n s = drop (length s - n) s"

text \<open>
  A \<^verbatim>\<open>for q, a in table.items()\<close> loop that leaves at the first entry whose test
  holds, with the answer of that entry.
\<close>

fun first_match :: "(string \<Rightarrow> bool) \<Rightarrow> (string \<times> string) list \<Rightarrow> string option" where
  "first_match tst [] = None"
| "first_match tst ((q, a) # qas) = (if tst q then Some a else first_match tst qas)"

text \<open>The test \<^verbatim>\<open>tmpOut and q.search(stdoutErr)\<close>.\<close>

definition pattern_hit :: "regex \<Rightarrow> string option \<Rightarrow> string \<Rightarrow> string \<Rightarrow> bool" where
  "pattern_hit re tmpOut buf q =
     ((case tmpOut of None \<Rightarrow> False | Some t \<Rightarrow> t \<noteq> []) \<and> re False q buf \<noteq> None)"

text \<open>The read at the head of the loop body: a failed read leaves the buffer as it is.\<close>

definition receive :: "session \<Rightarrow> string option \<Rightarrow> session" where
  "receive s tmpOut =
     (case tmpOut of None \<Rightarrow> s | Some t \<Rightarrow> s\<lparr>stdoutErr := stdoutErr s @ t\<rparr>)"

text \<open>The matching part of the loop body, from \<^verbatim>\<open>hit = False\<close> to the last \<^verbatim>\<open>hitCount = 0\<close>.\<close>

definition answer_or_count :: "regex \<Rightarrow> qa_tables \<Rightarrow> string option \<Rightarrow> session \<Rightarrow> session" where
  "answer_or_count re t tmpOut s =
     (case first_match (pattern_hit re tmpOut (stdoutErr s)) (newQA t) of
        Some a \<Rightarrow> s\<lparr>answers_sent := answers_sent s @ [a], hitCount := 0\<rparr>
      | None \<Rightarrow>
         (case first_match (pattern_hit re tmpOut (stdoutErr s)) (newstdQA t) of
            Some a \<Rightarrow> s\<lparr>answers_sent := answers_sent s @ [a], hitCount := 0\<rparr>
          | None \<Rightarrow>
             if int (length (stdoutErr s)) > oldLenOut s
             then s\<lparr>oldLenOut := int (length (stdoutErr s))\<rparr>
             else if list_ex (\<lambda>r. re False r (stdoutErr s) \<noteq> None) (new_no_qa t) then s
             else s\<lparr>hitCount := hitCount s + 1\<rparr>))"

text \<open>
  The check \<^verbatim>\<open>if hitCount > maxHitCount\<close>: \<^verbatim>\<open>os.killpg\<close> and \<^verbatim>\<open>os.kill\<close> share one
  \<^verbatim>\<open>try\<close>, so a failing \<^verbatim>\<open>os.killpg\<close> skips \<^verbatim>\<open>os.kill\<close>; then \<^verbatim>\<open>log.error\<close>.
\<close>

definition hang_check :: "bool \<Rightarrow> session \<Rightarrow> session \<times> error option" where
  "hang_check kpg_ok s =
     (if hitCount s > maxHitCount
      then (s\<lparr>kill_calls := kill_calls s @ (if kpg_ok then [Killpg, Kill] else [Killpg])\<rparr>,
            Some (HangTimeout (last_n 500 (stdoutErr s))))
      else (s, None))"

definition qa_iter ::
  "regex \<Rightarrow> qa_tables \<Rightarrow> bool \<Rightarrow> session \<Rightarrow> string option \<Rightarrow> session \<times> error option"
where
  "qa_iter re t kpg_ok s tmpOut = hang_check kpg_ok (answer_or_count re t tmpOut (receive s tmpOut))"

fun qa_loop ::
  "regex \<Rightarrow> qa_tables \<Rightarrow> bool \<Rightarrow> session \<Rightarrow> int option
     \<Rightarrow> (string option \<times> int option) list \<Rightarrow> session \<times> int outcome"
where
  "qa_loop re t kpg_ok s ec [] =
     (if loop_goes_on ec then (s, Running) else (s, Returns (ec_value ec)))"
| "qa_loop re t kpg_ok s ec ((tmpOut, ec') # rest) =
     (if loop_goes_on ec then
        (case qa_iter re t kpg_ok s tmpOut of
           (s', Some e) \<Rightarrow> (s', Raises e)
         | (s', None) \<Rightarrow> qa_loop re t kpg_ok s' ec' rest)
      else (s, Returns (ec_value ec)))"

definition session0 :: session where
  "session0 = \<lparr>stdoutErr = [], oldLenOut = - 1, hitCount = 0, answers_sent = [], kill_calls = []\<rparr>"

definition record_session :: "session \<Rightarrow> world \<Rightarrow> world" where
  "record_session s w =
     w\<lparr>stdin_data := stdin_data w @ answers_sent s, kills := kills w @ kill_calls s\<rparr>"

definition run_cmd_qa ::
  "regex \<Rightarrow> sysenv \<Rightarrow> proc \<Rightarrow> string \<Rightarrow> (string \<times> string) list \<Rightarrow> string list \<Rightarrow> bool
     \<Rightarrow> bool \<Rightarrow> bool \<Rightarrow> regexp_arg \<Rightarrow> (string \<times> string) list \<Rightarrow> world
     \<Rightarrow> world \<times> pyval outcome"
where
  "run_cmd_qa re e p cmd qa no_qa log_ok log_all simple regexp std_qa w =
     (case suse_hack e cmd of
        Inl err \<Rightarrow> (w, Raises err)
      | Inr cmd' \<Rightarrow>
         (case build_newQA re qa [] of
            Inl err \<Rightarrow> (w, Raises err)
          | Inr nqa \<Rightarrow>
             (let t = \<lparr>newQA = nqa, newstdQA = build_newstdQA std_qa [],
                      new_no_qa = build_new_no_qa no_qa\<rparr>
              in if log_all \<and> \<not> tmpfile_ok e then (w, Raises LogFileError)
                 else if \<not> spawn_ok p then (w, Raises ProcessSpawnError)
                 else
                   (let w1 = w\<lparr>launched := launched w @ [cmd']\<rparr> in
                    (case qa_loop re t (killpg_ok p) session0 (poll0 p) (rounds p) of
                       (s, Running) \<Rightarrow> (record_session s w1, Running)
                     | (s, Raises err) \<Rightarrow> (record_session s w1, Raises err)
                     | (s, Returns ec) \<Rightarrow>
                        finish_run e re log_ok log_all simple regexp
                          (case final_read p of None \<Rightarrow> stdoutErr s | Some t \<Rightarrow> stdoutErr s @ t)
                          ec (record_session s w1))))))"

section \<open>Patch applicator: patch\<close>

text \<open>
  The pattern \<^verbatim>\<open>^\s*\+\+\+\s+(?P<file>\S+)\<close> searched in one line: white space, three
  plus signs, white space, and the group \<^verbatim>\<open>file\<close>, the run of other characters that
  follows.
\<close>

definition patchreg_file :: "string \<Rightarrow> string option" where
  "patchreg_file txt =
     (let t1 = dropWhile is_space txt in
      if take 3 t1 = ''+++'' then
        (let t2 = drop 3 t1;
             fl = takeWhile (\<lambda>c. \<not> is_space c) (dropWhile is_space t2)
         in if t2 \<noteq> [] \<and> is_space (hd t2) \<and> fl \<noteq> [] then Some fl else None)
      else None)"

text \<open>
  \<^verbatim>\<open>for i in range(n)\<close> over the pieces \<^verbatim>\<open>tf2[i:]\<close>: the list is what is left of
  \<^verbatim>\<open>tf2\<close> and the number is \<^verbatim>\<open>i\<close>.
\<close>

fun strip_level :: "(string \<Rightarrow> bool) \<Rightarrow> string list \<Rightarrow> nat \<Rightarrow> nat option" where
  "strip_level ex [] i = None"
| "strip_level ex (t # ts) i =
     (if ex (join ''/'' (t # ts)) then Some i else strip_level ex ts (Suc i))"

text \<open>\<^verbatim>\<open>for line in plusLines\<close>, left at the first line with a match.\<close>

fun guess_level :: "(string \<Rightarrow> bool) \<Rightarrow> string list \<Rightarrow> nat option" where
  "guess_level ex [] = None"
| "guess_level ex (fl # fls) =
     (case strip_level ex (split_on CHR ''/'' fl) 0 of
        Some i \<Rightarrow> Some i
      | None \<Rightarrow> guess_level ex fls)"

definition determine_level :: "filesys \<Rightarrow> string \<Rightarrow> string \<Rightarrow> error + int" where
  "determine_level f wd apatch =
     (case file_lines f apatch of
        None \<Rightarrow> Inl ReadFailed
      | Some ls \<Rightarrow>
         (let plusLines = List.map_filter patchreg_file ls in
          if plusLines = [] then Inl PatchLevelUndetermined
          else (case guess_level (py_isfile f wd) plusLines of
                  None \<Rightarrow> Inl PatchLevelUndetermined
                | Some i \<Rightarrow> Inr (int i))))"

text \<open>\<^verbatim>\<open>"%d" % p\<close>\<close>

function show_nat :: "nat \<Rightarrow> string" where
  "show_nat n =
     (if n < 10 then [char_of (48 + n)] else show_nat (n div 10) @ [char_of (48 + n mod 10)])"
  by pat_completeness auto
termination
  by (relation "measure id") auto

declare show_nat.simps [simp del]

definition show_int :: "int \<Rightarrow> string" where
  "show_int i = (if i < 0 then CHR ''-'' # show_nat (nat (- i)) else show_nat (nat i))"

definition patchCmd :: "int \<Rightarrow> string \<Rightarrow> string" where
  "patchCmd p apatch = ''patch -b -p'' @ show_int p @ '' -i '' @ apatch"

definition patch ::
  "regex \<Rightarrow> sysenv \<Rightarrow> filesys \<Rightarrow> proc \<Rightarrow> string \<Rightarrow> string \<Rightarrow> string option \<Rightarrow> bool
     \<Rightarrow> int option \<Rightarrow> world \<Rightarrow> world \<times> pyval outcome"
where
  "patch re e f pr patchFile dest fn copy level w =
     (if \<not> py_isfile f (cwd w) patchFile then (w, Raises MissingFile)
      else if (case fn of None \<Rightarrow> False | Some n \<Rightarrow> n \<noteq> [] \<and> \<not> py_isfile f (cwd w) n)
        then (w, Raises MissingFile)
      else if \<not> py_isdir f (cwd w) dest then (w, Raises MissingDirectory)
      else if copy then
        (if copy_ok f (path_join (cwd w) patchFile) (path_join (cwd w) dest)
         then (w, Returns (PStr ''ok''))
         else (w, Raises CopyFailed))
      else
        (let apatch = abspath f (cwd w) patchFile;
             adest = abspath f (cwd w) dest
         in if \<not> chdir_ok f adest then (w, Raises ChdirFailed)
            else
              (let w1 = w\<lparr>cwd := adest\<rparr> in
               (case (case level of
                        None \<Rightarrow> determine_level f adest apatch
                      | Some l \<Rightarrow> if l \<noteq> 0 then Inr l else determine_level f adest apatch) of
                  Inl err \<Rightarrow> (w1, Raises err)
                | Inr p \<Rightarrow>
                   (case run_cmd re e pr (patchCmd p apatch) True False True None (RBool True)
                           False w1 of
                      (w2, Returns r) \<Rightarrow>
                        if r = PBool False then (w2, Raises PatchFailed) else (w2, Returns r)
                    | (w2, Raises err) \<Rightarrow> (w2, Raises err)
                    | (w2, Running) \<Rightarrow> (w2, Running))))))"

section \<open>unpack\<close>

text \<open>
  \<open>f\<close> is the file system at the call and \<open>f'\<close> the one the extraction command leaves.
  The message for a failed \<^verbatim>\<open>os.makedirs\<close> is built with the conversion \<^verbatim>\<open>%e\<close> on
  the exception, which is a \<^verbatim>\<open>TypeError\<close>.
\<close>

definition unpack ::
  "regex \<Rightarrow> sysenv \<Rightarrow> filesys \<Rightarrow> filesys \<Rightarrow> proc \<Rightarrow> nat \<Rightarrow> string \<Rightarrow> string
     \<Rightarrow> string option \<Rightarrow> bool \<Rightarrow> world \<Rightarrow> world \<times> string outcome"
where
  "unpack re e f f' pr fuel fn dest extraOptions overwrite w =
     (if \<not> py_isfile f (cwd w) fn then (w, Raises MissingFile)
      else if \<not> py_isdir f (cwd w) dest \<and> \<not> makedirs_ok f (path_join (cwd w) dest)
        then (w, Raises TypeError)
      else
        (let absDest = abspath f (cwd w) dest in
         if \<not> chdir_ok f absDest then (w, Raises ChdirFailed)
         else
           (let w1 = w\<lparr>cwd := absDest\<rparr> in
            (case extractCmd fn overwrite of
               Inl err \<Rightarrow> (w1, Raises err)
             | Inr cmd \<Rightarrow>
                if cmd = [] then (w1, Raises UnknownFormat)
                else
                  (let cmd' = (case extraOptions of
                                 None \<Rightarrow> cmd
                               | Some x \<Rightarrow> if x = [] then cmd else cmd @ '' '' @ x)
                   in (case run_cmd re e pr cmd' True False True None (RBool True) False w1 of
                         (w2, Returns r) \<Rightarrow>
                           (case findBaseDir fuel f' (cwd w2) of
                              (wd, oc) \<Rightarrow> (w2\<lparr>cwd := wd\<rparr>, oc))
                       | (w2, Raises err) \<Rightarrow> (w2, Raises err)
                       | (w2, Running) \<Rightarrow> (w2, Running)))))))"

section \<open>Notions used in the statements\<close>

text \<open>A read brought new data: \<^verbatim>\<open>tmpOut\<close> is a non-empty string.\<close>

definition fresh_data :: "string option \<Rightarrow> bool" where
  "fresh_data tmpOut = (case tmpOut of None \<Rightarrow> False | Some x \<Rightarrow> x \<noteq> [])"

text \<open>The data of a read, nothing when it failed.\<close>

definition chunk :: "string option \<Rightarrow> string" where
  "chunk r = (case r of None \<Rightarrow> [] | Some x \<Rightarrow> x)"

text \<open>
  The exit code of a child: the first poll that ends the \<^verbatim>\<open>while ec < 0\<close> loop. The turns
  taken are the reads made before that poll, and the captured output is their data
  followed by the data of the final read.
\<close>

definition child_exit_code :: "proc \<Rightarrow> int option" where
  "child_exit_code p =
     (case find (\<lambda>ec. \<not> loop_goes_on ec) (poll0 p # map snd (rounds p)) of
        Some (Some c) \<Rightarrow> Some c
      | _ \<Rightarrow> None)"

definition turns_taken :: "proc \<Rightarrow> nat" where
  "turns_taken p = length (takeWhile loop_goes_on (poll0 p # map snd (rounds p)))"

definition captured :: "proc \<Rightarrow> string" where
  "captured p = concat (map (\<lambda>ob. chunk (fst ob)) (take (turns_taken p) (rounds p)))
                  @ chunk (final_read p)"


text \<open>
  The scan of a runner goes through: \<^verbatim>\<open>regexp\<close> is false, or it is the boolean true and
  \<^verbatim>\<open>re.compile\<close> accepts the default pattern, or it is a string that \<^verbatim>\<open>re.compile\<close>
  accepts.
\<close>

definition scan_ok :: "sysenv \<Rightarrow> regexp_arg \<Rightarrow> bool" where
  "scan_ok e regexp =
     (case regexp of
        RNone \<Rightarrow> True
      | RBool b \<Rightarrow> \<not> b \<or> re_compiles e default_regexp
      | RStr rx \<Rightarrow> rx = [] \<or> re_compiles e rx
      | ROther \<Rightarrow> False)"

text \<open>The lines in which a search finds something, each with the groups of its match.\<close>

definition matching_lines ::
  "(string \<Rightarrow> groups option) \<Rightarrow> string list \<Rightarrow> (string \<times> groups) list" where
  "matching_lines srch ls = List.map_filter (\<lambda>l. map_option (Pair l) (srch l)) ls"

text \<open>A string ends in a newline and the character before it, if any, is no newline.\<close>

definition ends_in_one_newline :: "string \<Rightarrow> bool" where
  "ends_in_one_newline a = (endswith_newline a \<and> \<not> endswith_newline (butlast a))"


text \<open>The checks of \<^verbatim>\<open>patch\<close> before it reaches its work hold, and \<^verbatim>\<open>os.chdir\<close> succeeds.\<close>

definition patch_ready ::
  "filesys \<Rightarrow> world \<Rightarrow> string \<Rightarrow> string \<Rightarrow> string option \<Rightarrow> bool" where
  "patch_ready f w patchFile dest fn =
     (py_isfile f (cwd w) patchFile
      \<and> (case fn of None \<Rightarrow> True | Some n \<Rightarrow> n = [] \<or> py_isfile f (cwd w) n)
      \<and> py_isdir f (cwd w) dest
      \<and> chdir_ok f (abspath f (cwd w) dest))"

section \<open>Example inputs\<close>

definition fs_nothing :: filesys where
  "fs_nothing = \<lparr>isfile = (\<lambda>p. False), isdir = (\<lambda>p. False), listdir = (\<lambda>p. []),
     normpath = (\<lambda>p. p), chdir_ok = (\<lambda>p. True), makedirs_ok = (\<lambda>p. True),
     copy_ok = (\<lambda>p q. True), file_lines = (\<lambda>p. None)\<rparr>"

text \<open>A directory \<^verbatim>\<open>/a\<close> that holds the regular file \<^verbatim>\<open>f\<close> and nothing else.\<close>

definition fs_single_file :: filesys where
  "fs_single_file = fs_nothing\<lparr>isfile := (\<lambda>p. p = ''/a/f''), isdir := (\<lambda>p. p = ''/a''),
     listdir := (\<lambda>p. if p = ''/a'' then [''f''] else [])\<rparr>"

text \<open>The chain \<^verbatim>\<open>/a/b/c\<close> of directories, \<^verbatim>\<open>c\<close> empty.\<close>

definition fs_chain :: filesys where
  "fs_chain = fs_nothing\<lparr>isdir := (\<lambda>p. p \<in> {''/a'', ''/a/b'', ''/a/b/c''}),
     listdir := (\<lambda>p. if p = ''/a'' then [''b''] else if p = ''/a/b'' then [''c''] else [])\<rparr>"

text \<open>A directory \<^verbatim>\<open>/a\<close> with the two subdirectories \<^verbatim>\<open>x\<close> and \<^verbatim>\<open>y\<close>.\<close>

definition fs_siblings :: filesys where
  "fs_siblings = fs_nothing\<lparr>isdir := (\<lambda>p. p \<in> {''/a'', ''/a/x'', ''/a/y''}),
     listdir := (\<lambda>p. if p = ''/a'' then [''x'', ''y''] else [])\<rparr>"

text \<open>
  A matcher for the patterns of the examples, which are a literal text (without white
  space or special characters) followed by one of the two endings that \<^verbatim>\<open>run_cmd_qa\<close>
  appends: such a pattern is found in a text when the text, without the white space at
  its end, ends with the literal. No other pattern is found.
\<close>

definition strip_end :: "string \<Rightarrow> string \<Rightarrow> string option" where
  "strip_end suf p =
     (if length suf \<le> length p \<and> drop (length p - length suf) p = suf
      then Some (take (length p - length suf) p) else None)"

definition custom_end_txt :: string where
  "custom_end_txt = rstrip_plus split_txt @ ''*$''"

definition re_literal :: regex where
  "re_literal icase p s =
     (case (case strip_end raw_end_txt p of
              Some l \<Rightarrow> Some l
            | None \<Rightarrow> strip_end custom_end_txt p) of
        None \<Rightarrow> None
      | Some lit \<Rightarrow>
         (case strip_end lit (rev (dropWhile is_space (rev s))) of
            None \<Rightarrow> None
          | Some pre \<Rightarrow> Some []))"

definition env0 :: sysenv where
  "env0 = \<lparr>profileread = False, modules_sh = True, tmpfile_ok = True,
            re_compiles = (\<lambda>p. p \<noteq> ''('')\<rparr>"

definition world0 :: world where
  "world0 = \<lparr>cwd = ''/home'', launched = [], stdin_data = [], kills = [], errorsFoundInLog = 0\<rparr>"

definition no_tables :: qa_tables where
  "no_tables = \<lparr>newQA = [], newstdQA = [], new_no_qa = []\<rparr>"

text \<open>A child that prints \<^verbatim>\<open>ab\<close> and then nothing during five polls.\<close>

definition rounds_ab_quiet :: "(string option \<times> int option) list" where
  "rounds_ab_quiet = (Some ''ab'', None) # replicate 5 (Some [], None)"

text \<open>
  A child that prints the question \<^verbatim>\<open>Continue\<close>, prints nothing more during two
  polls and ends with exit code 0.
\<close>

definition proc_continue :: proc where
  "proc_continue = \<lparr>spawn_ok = True, poll0 = None,
     rounds = [(Some ''Continue'', None), (Some [], None), (Some [], Some 0)],
     final_read = Some [], killpg_ok = True\<rparr>"

text \<open>A child that never prints and never ends, seen during 22 polls.\<close>

definition proc_silent :: proc where
  "proc_silent = \<lparr>spawn_ok = True, poll0 = None, rounds = replicate 22 (Some [], None),
     final_read = Some [], killpg_ok = True\<rparr>"




text \<open>A buffer \<^verbatim>\<open>ab\<close> whose length is recorded, after five polls without progress.\<close>

definition session_ab5 :: session where
  "session_ab5 = \<lparr>stdoutErr = ''ab'', oldLenOut = 2, hitCount = 5, answers_sent = [],
     kill_calls = []\<rparr>"

text \<open>Tables with one custom question, one standard question and one sentinel.\<close>

definition tables_cs :: qa_tables where
  "tables_cs = \<lparr>newQA = [(''Continue'' @ custom_end_txt, ''y'' @ [newline])],
     newstdQA = [(''name:'' @ raw_end_txt, ''joe'' @ [newline])],
     new_no_qa = [(''wait'' @ raw_end_txt)]\<rparr>"

text \<open>A child that prints during two polls and ends with exit code 0.\<close>

definition proc_make :: proc where
  "proc_make = \<lparr>spawn_ok = True, poll0 = None,
     rounds = [(Some ''compiling'', None), (Some ('' done'' @ [newline]), Some 0)],
     final_read = Some ''bye'', killpg_ok = True\<rparr>"


text \<open>A child that was ended by signal 9 and is polled three times.\<close>

definition proc_killed :: proc where
  "proc_killed = \<lparr>spawn_ok = True, poll0 = None,
     rounds = [(Some ''working'', Some (- 9)), (Some [], Some (- 9)), (Some [], Some (- 9))],
     final_read = Some [], killpg_ok = True\<rparr>"

text \<open>A child that prints a line ending in \<^verbatim>\<open>failed\<close> and ends with exit code 0.\<close>

definition proc_failed_line :: proc where
  "proc_failed_line = \<lparr>spawn_ok = True, poll0 = None,
     rounds = [(Some (''step one failed'' @ [newline] @ ''ok'' @ [newline]), Some 0)],
     final_read = Some [], killpg_ok = True\<rparr>"

text \<open>A child that prints \<^verbatim>\<open>name:\<close>, then \<^verbatim>\<open> thanks\<close>, and ends with exit code 0.\<close>

definition proc_name :: proc where
  "proc_name = \<lparr>spawn_ok = True, poll0 = None,
     rounds = [(Some ''name:'', None), (Some '' thanks'', Some 0)],
     final_read = Some [], killpg_ok = True\<rparr>"

text \<open>
  A patch file \<^verbatim>\<open>/home/fix.patch\<close> with two \<^verbatim>\<open>+++\<close> lines, and a target directory
  \<^verbatim>\<open>/target\<close> that holds \<^verbatim>\<open>b/file.txt\<close>; then the same without that file.
\<close>

definition patch_lines :: "string list" where
  "patch_lines = [''--- a/b/file.txt'' @ [newline], ''+++ a/b/file.txt'' @ [newline],
                  ''@@ -1 +1 @@'' @ [newline], ''+++ b/other.txt'' @ [newline]]"

definition fs_patch :: filesys where
  "fs_patch = fs_nothing\<lparr>
     isfile := (\<lambda>p. p = ''/home/fix.patch'' \<or> p = ''/target/b/file.txt''),
     isdir := (\<lambda>p. p = ''/target''),
     file_lines := (\<lambda>p. if p = ''/home/fix.patch'' then Some patch_lines else None)\<rparr>"


text \<open>
  An archive \<^verbatim>\<open>/home/example-1.0.tar.gz\<close> and a directory \<^verbatim>\<open>/build\<close>, before and after
  the extraction.
\<close>

definition fs_unpack :: filesys where
  "fs_unpack = fs_nothing\<lparr>isfile := (\<lambda>p. p = ''/home/example-1.0.tar.gz''),
     isdir := (\<lambda>p. p = ''/build'')\<rparr>"

definition fs_unpacked :: filesys where
  "fs_unpacked = fs_nothing\<lparr>isfile := (\<lambda>p. p = ''/home/example-1.0.tar.gz''),
     isdir := (\<lambda>p. p = ''/build'' \<or> p = ''/build/example-1.0'' \<or> p = ''/build/example-1.0/src''),
     listdir := (\<lambda>p. if p = ''/build'' then [''example-1.0'']
                     else if p = ''/build/example-1.0'' then [''src'', ''README''] else [])\<rparr>"

section \<open>Properties of extractCmd\<close>

lemmas extractCmd_unfold =
  extractCmd_def suffix_with_tar_def pick_template_def last1_def last2_def lower_def
  lower_char_def

lemma split_on_nonempty: "split_on c s \<noteq> []"
  by (induction s) (auto split: list.splits)

lemma extractCmd_tar_gz: "extractCmd ''foo.tar.gz'' False = Inr ''tar xzf foo.tar.gz''"
  by (simp add: extractCmd_unfold)

lemma extractCmd_zip_overwrite: "extractCmd ''foo.zip'' True = Inr ''unzip -qq -o foo.zip''"
  by (simp add: extractCmd_unfold)

lemma extractCmd_xyz: "extractCmd ''foo.xyz'' ov = Inl UnknownFormat"
  by (simp add: extractCmd_unfold)

text \<open>A last token outside the table gives \<open>UnknownFormat\<close>, whatever the name.\<close>

lemma extractCmd_unknown:
  assumes "last (map lower (split_on CHR ''.'' fn))
             \<notin> set [''gz'', ''tgz'', ''gtgz'', ''bz2'', ''tbz'', ''tar'', ''zip'']"
  shows "extractCmd fn ov = Inl UnknownFormat"
proof -
  let ?ff = "map lower (split_on CHR ''.'' fn)"
  have "?ff \<noteq> []"
    by (simp add: split_on_nonempty)
  then have "last1 ?ff = Inr (last ?ff)"
    by (simp add: last1_def last_conv_nth)
  with assms show ?thesis
    by (simp add: extractCmd_def suffix_with_tar_def pick_template_def Let_def)
qed

text \<open>
  For a name with at least two tokens the command follows the suffix table, with the
  file name in the place of \<^verbatim>\<open>%s\<close>.
\<close>

lemma percent_s_templates:
  "percent_s ''gunzip %s'' fn = ''gunzip '' @ fn"
  "percent_s ''tar xzf %s'' fn = ''tar xzf '' @ fn"
  "percent_s ''bunzip2 %s'' fn = ''bunzip2 '' @ fn"
  "percent_s ''tar xjf %s'' fn = ''tar xjf '' @ fn"
  "percent_s ''tar xfj %s'' fn = ''tar xfj '' @ fn"
  "percent_s ''tar xf %s'' fn = ''tar xf '' @ fn"
  "percent_s ''unzip -qq -o %s'' fn = ''unzip -qq -o '' @ fn"
  "percent_s ''unzip -qq %s'' fn = ''unzip -qq '' @ fn"
  by simp_all

lemma extractCmd_table:
  assumes "ff = map lower (split_on CHR ''.'' fn)" and "2 \<le> length ff"
  shows "extractCmd fn ov =
     (if last ff = ''zip'' then Inr ((if ov then ''unzip -qq -o '' else ''unzip -qq '') @ fn)
      else if last ff = ''tar'' then Inr (''tar xf '' @ fn)
      else if last ff = ''tbz'' then Inr (''tar xfj '' @ fn)
      else if last ff = ''bz2''
        then Inr ((if ff ! (length ff - 2) = ''tar'' then ''tar xjf '' else ''bunzip2 '') @ fn)
      else if last ff = ''tgz'' \<or> last ff = ''gtgz'' then Inr (''tar xzf '' @ fn)
      else if last ff = ''gz''
        then Inr ((if ff ! (length ff - 2) = ''tar'' then ''tar xzf '' else ''gunzip '') @ fn)
      else Inl UnknownFormat)"
proof -
  have l1: "last1 ff = Inr (last ff)"
    using assms(2) by (auto simp: last1_def last_conv_nth)
  have l2: "last2 ff = Inr (ff ! (length ff - 2))"
    using assms(2) by (simp add: last2_def)
  show ?thesis
    unfolding extractCmd_def Let_def assms(1) [symmetric] suffix_with_tar_def l1 l2
      pick_template_def
    by (simp add: percent_s_templates del: percent_s.simps)
qed

text \<open>
  C6. \<^verbatim>\<open>extractCmd\<close> is to return the command of the suffix table for a name whose
  last token is in the table, and to fail with \<open>UnknownFormat\<close> otherwise. For the
  file name \<^verbatim>\<open>gz\<close>, which has no dot, the last token is \<^verbatim>\<open>gz\<close> and the table gives
  \<^verbatim>\<open>gunzip gz\<close>; the code assigns that template and then reads \<^verbatim>\<open>ff[-2]\<close> of a list
  of one token, so the call ends with an \<open>IndexError\<close>: neither a command nor
  \<open>UnknownFormat\<close>.
\<close>

theorem extractCmd_bare_gz_IndexError:
  "extractCmd ''gz'' overwrite = Inl IndexError"
  by (simp add: extractCmd_unfold)

section \<open>Properties of findBaseDir\<close>

lemmas findBaseDir_unfold =
  findBaseDir_def getLocalDirsPurged_def ignoreDirs_def path_join_def Let_def

lemma findBaseDir_stops_here:
  "length (getLocalDirsPurged f wd) \<noteq> 1 \<Longrightarrow> findBaseDir n f wd = (wd, Returns wd)"
  by (cases n) (simp_all add: findBaseDir_def)

lemma findBaseDir_descends:
  "getLocalDirsPurged f wd = [x] \<Longrightarrow> isdir f (path_join wd x) \<Longrightarrow>
   chdir_ok f (path_join wd x) \<Longrightarrow>
   findBaseDir (Suc n) f wd = findBaseDir n f (path_join wd x)"
  by (simp add: findBaseDir_def Let_def)

lemma findBaseDir_sole_entry_not_dir:
  "getLocalDirsPurged f wd = [x] \<Longrightarrow> \<not> isdir f (path_join wd x) \<Longrightarrow>
   findBaseDir (Suc n) f wd = (wd, Returns (path_join wd x))"
  by (simp add: findBaseDir_def Let_def)

lemma findBaseDir_chain:
  "findBaseDir 3 fs_chain ''/a'' = (''/a/b/c'', Returns ''/a/b/c'')"
  by (simp add: findBaseDir_unfold fs_chain_def fs_nothing_def numeral_3_eq_3)

lemma findBaseDir_siblings:
  "findBaseDir n fs_siblings ''/a'' = (''/a'', Returns ''/a'')"
  by (rule findBaseDir_stops_here)
     (simp add: getLocalDirsPurged_def ignoreDirs_def fs_siblings_def fs_nothing_def)

text \<open>
  C5. \<^verbatim>\<open>findBaseDir\<close> is to return the current directory when the sole entry of the
  listing is not a directory. In the directory \<^verbatim>\<open>/a\<close> whose only entry is the regular
  file \<^verbatim>\<open>f\<close> the code has already assigned \<^verbatim>\<open>newDir = os.path.join(os.getcwd(), lst[0])\<close>
  when it leaves the loop, and returns the path \<^verbatim>\<open>/a/f\<close> of the file, while the working
  directory stays \<^verbatim>\<open>/a\<close>.
\<close>

theorem findBaseDir_returns_file_path:
  "findBaseDir 3 fs_single_file ''/a'' = (''/a'', Returns ''/a/f'')"
  by (simp add: findBaseDir_unfold fs_single_file_def fs_nothing_def numeral_3_eq_3)

section \<open>Properties of the polling loop of run_cmd_qa\<close>

lemma first_match_find:
  "first_match tst tbl = map_option snd (find (\<lambda>(q, a). tst q) tbl)"
  by (induction tbl) auto

lemma first_match_never: "first_match (\<lambda>q. False) tbl = None"
  by (induction tbl) auto

lemma pattern_hit_fresh:
  "fresh_data tmpOut \<Longrightarrow> pattern_hit re tmpOut buf = (\<lambda>q. re False q buf \<noteq> None)"
  by (auto simp: pattern_hit_def fresh_data_def split: option.splits)

lemma pattern_hit_stale:
  "\<not> fresh_data tmpOut \<Longrightarrow> pattern_hit re tmpOut buf = (\<lambda>q. False)"
  by (auto simp: pattern_hit_def fresh_data_def split: option.splits)

lemma hang_check_fields [simp]:
  "stdoutErr (fst (hang_check k s)) = stdoutErr s"
  "oldLenOut (fst (hang_check k s)) = oldLenOut s"
  "hitCount (fst (hang_check k s)) = hitCount s"
  "answers_sent (fst (hang_check k s)) = answers_sent s"
  by (simp_all add: hang_check_def)

lemma receive_fields [simp]:
  "oldLenOut (receive s r) = oldLenOut s"
  "hitCount (receive s r) = hitCount s"
  "answers_sent (receive s r) = answers_sent s"
  "kill_calls (receive s r) = kill_calls s"
  by (simp_all add: receive_def split: option.splits)

lemmas qa_eval =
  qa_iter_def hang_check_def answer_or_count_def receive_def pattern_hit_def maxHitCount_def
  last_n_def loop_goes_on_def ec_value_def session0_def

text \<open>
  C1, as the claim states it, fails: the counter is not reset when the buffer grows.
  A child prints \<^verbatim>\<open>ab\<close>, stays silent during five polls, then prints \<^verbatim>\<open>x\<close>: after
  the five polls the counter is 5, and after the poll in which the buffer grew to
  \<^verbatim>\<open>abx\<close> it is still 5.
\<close>

theorem hang_counter_growth_counterexample:
  "stdoutErr (fst (qa_loop re_literal no_tables True session0 None rounds_ab_quiet)) = ''ab''
   \<and> hitCount (fst (qa_loop re_literal no_tables True session0 None rounds_ab_quiet)) = 5
   \<and> stdoutErr (fst (qa_loop re_literal no_tables True session0 None
         (rounds_ab_quiet @ [(Some ''x'', None)]))) = ''abx''
   \<and> hitCount (fst (qa_loop re_literal no_tables True session0 None
         (rounds_ab_quiet @ [(Some ''x'', None)]))) = 5"
  by code_simp

text \<open>
  C1, amended. In every turn of the polling loop of \<^verbatim>\<open>run_cmd_qa\<close>: when an answer is
  sent the hang counter becomes zero; when no answer is sent and the buffer is longer
  than the recorded length, the new length is recorded and the counter keeps its value;
  when no answer is sent, the buffer is not longer than the recorded length and a
  no-progress pattern is found in it, the counter keeps its value; and when no answer is
  sent, the buffer is not longer and no no-progress pattern is found, the counter grows
  by one. The four cases cover every turn, so the counter grows only in the last one and
  is reset only by an answer.
\<close>

theorem hang_counter_step:
  "(answers_sent (fst (qa_iter re t k s tmpOut)) \<noteq> answers_sent s
      \<longrightarrow> hitCount (fst (qa_iter re t k s tmpOut)) = 0)
   \<and> (answers_sent (fst (qa_iter re t k s tmpOut)) = answers_sent s
        \<and> int (length (stdoutErr (receive s tmpOut))) > oldLenOut s
      \<longrightarrow> hitCount (fst (qa_iter re t k s tmpOut)) = hitCount s
          \<and> oldLenOut (fst (qa_iter re t k s tmpOut))
              = int (length (stdoutErr (receive s tmpOut))))
   \<and> (answers_sent (fst (qa_iter re t k s tmpOut)) = answers_sent s
        \<and> int (length (stdoutErr (receive s tmpOut))) \<le> oldLenOut s
        \<and> list_ex (\<lambda>r. re False r (stdoutErr (receive s tmpOut)) \<noteq> None) (new_no_qa t)
      \<longrightarrow> hitCount (fst (qa_iter re t k s tmpOut)) = hitCount s)
   \<and> (answers_sent (fst (qa_iter re t k s tmpOut)) = answers_sent s
        \<and> int (length (stdoutErr (receive s tmpOut))) \<le> oldLenOut s
        \<and> \<not> list_ex (\<lambda>r. re False r (stdoutErr (receive s tmpOut)) \<noteq> None) (new_no_qa t)
      \<longrightarrow> hitCount (fst (qa_iter re t k s tmpOut)) = hitCount s + 1)"
  by (simp add: qa_iter_def answer_or_count_def split: option.splits)

text \<open>
  The four cases at work, from a buffer \<^verbatim>\<open>ab\<close> with counter 5: the custom question
  arrives; other text arrives; nothing arrives and the sentinel \<^verbatim>\<open>wait\<close> ends the
  buffer; a read fails.
\<close>

theorem hang_counter_step_witness:
  "hitCount (fst (qa_iter re_literal tables_cs True session_ab5 (Some '' Continue''))) = 0
   \<and> hitCount (fst (qa_iter re_literal tables_cs True session_ab5 (Some ''x''))) = 5
   \<and> oldLenOut (fst (qa_iter re_literal tables_cs True session_ab5 (Some ''x''))) = 3
   \<and> hitCount (fst (qa_iter re_literal tables_cs True
        (session_ab5\<lparr>stdoutErr := ''wait'', oldLenOut := 4\<rparr>) (Some []))) = 5
   \<and> hitCount (fst (qa_iter re_literal tables_cs True session_ab5 None)) = 6"
proof -
  let ?w = "session_ab5\<lparr>stdoutErr := ''wait'', oldLenOut := 4\<rparr>"
  have a: "answers_sent (fst (qa_iter re_literal tables_cs True session_ab5 (Some '' Continue'')))
             \<noteq> answers_sent session_ab5"
    by code_simp
  have b: "answers_sent (fst (qa_iter re_literal tables_cs True session_ab5 (Some ''x'')))
             = answers_sent session_ab5
           \<and> int (length (stdoutErr (receive session_ab5 (Some ''x'')))) > oldLenOut session_ab5"
    by code_simp
  have c: "answers_sent (fst (qa_iter re_literal tables_cs True ?w (Some []))) = answers_sent ?w
           \<and> int (length (stdoutErr (receive ?w (Some [])))) \<le> oldLenOut ?w
           \<and> list_ex (\<lambda>r. re_literal False r (stdoutErr (receive ?w (Some []))) \<noteq> None)
                 (new_no_qa tables_cs)"
    by code_simp
  have d: "answers_sent (fst (qa_iter re_literal tables_cs True session_ab5 None))
             = answers_sent session_ab5
           \<and> int (length (stdoutErr (receive session_ab5 None))) \<le> oldLenOut session_ab5
           \<and> \<not> list_ex (\<lambda>r. re_literal False r (stdoutErr (receive session_ab5 None)) \<noteq> None)
                 (new_no_qa tables_cs)"
    by code_simp
  have h5: "hitCount session_ab5 = 5"
    by (simp add: session_ab5_def)
  have l3: "int (length (stdoutErr (receive session_ab5 (Some ''x'')))) = 3"
    by (simp add: session_ab5_def receive_def)
  show ?thesis
    using a b c d h5 l3
      hang_counter_step [of re_literal tables_cs True session_ab5 "Some '' Continue''"]
      hang_counter_step [of re_literal tables_cs True session_ab5 "Some ''x''"]
      hang_counter_step [of re_literal tables_cs True ?w "Some []"]
      hang_counter_step [of re_literal tables_cs True session_ab5 None]
    by simp
qed

text \<open>
  C3, as the claim states it, fails: the buffer is tested only in a turn whose read
  brought new data. With the custom question \<^verbatim>\<open>Continue\<close> answered by \<^verbatim>\<open>y\<close>, a child
  prints \<^verbatim>\<open>Continue\<close> and is polled three times before it ends; the pattern made from
  the question is found in the buffer at each of the three turns, and one answer is
  sent, in the first.
\<close>

theorem answer_not_resent_counterexample:
  "run_cmd_qa re_literal env0 proc_continue ''./configure'' [(''Continue'', ''y'')] [] True False
     True (RBool True) [] world0
     = (world0\<lparr>launched := [''./configure''], stdin_data := [''y'' @ [newline]]\<rparr>,
        Returns (PBool True))
   \<and> build_newQA re_literal [(''Continue'', ''y'')] []
       = Inr [(''Continue'' @ custom_end_txt, ''y'' @ [newline])]
   \<and> re_literal False (''Continue'' @ custom_end_txt) ''Continue'' \<noteq> None"
  by code_simp

text \<open>
  C3, amended. In a turn of the polling loop whose read brought new data, the whole
  buffer (the old one with the new data appended) is searched for the custom patterns in
  the order of the table and, when none is found, for the standard patterns; the answer
  of the first pattern found is sent, and nothing is sent when none is found. In a turn
  whose read brought nothing or failed, no answer is sent. So a turn sends at most one
  answer.
\<close>

theorem answer_per_turn:
  "(fresh_data tmpOut \<longrightarrow>
      answers_sent (fst (qa_iter re t k s tmpOut)) =
        answers_sent s @
          (case find (\<lambda>(q, a). re False q (stdoutErr (receive s tmpOut)) \<noteq> None) (newQA t) of
             Some (q, a) \<Rightarrow> [a]
           | None \<Rightarrow>
              (case find (\<lambda>(q, a). re False q (stdoutErr (receive s tmpOut)) \<noteq> None)
                      (newstdQA t) of
                 Some (q, a) \<Rightarrow> [a]
               | None \<Rightarrow> [])))
   \<and> (\<not> fresh_data tmpOut \<longrightarrow> answers_sent (fst (qa_iter re t k s tmpOut)) = answers_sent s)
   \<and> length (answers_sent (fst (qa_iter re t k s tmpOut))) \<le> length (answers_sent s) + 1
   \<and> stdoutErr (receive s tmpOut) = stdoutErr s @ (case tmpOut of None \<Rightarrow> [] | Some x \<Rightarrow> x)"
proof (cases "fresh_data tmpOut")
  case True
  then show ?thesis
    by (auto simp: qa_iter_def answer_or_count_def pattern_hit_fresh first_match_find receive_def
        split: option.splits)
next
  case False
  then show ?thesis
    by (auto simp: qa_iter_def answer_or_count_def pattern_hit_stale first_match_never receive_def
        split: option.splits)
qed

text \<open>
  A custom question arrives, a standard question arrives, and a turn without new data
  on a buffer that holds the custom question.
\<close>

theorem answer_per_turn_witness:
  "answers_sent (fst (qa_iter re_literal tables_cs True session_ab5 (Some '' Continue'')))
     = [''y'' @ [newline]]
   \<and> answers_sent (fst (qa_iter re_literal tables_cs True session_ab5 (Some '' name: '')))
     = [''joe'' @ [newline]]
   \<and> answers_sent (fst (qa_iter re_literal tables_cs True
        (session_ab5\<lparr>stdoutErr := ''Continue''\<rparr>) (Some []))) = []"
proof -
  have f: "fresh_data (Some '' Continue'')" "fresh_data (Some '' name: '')"
    "\<not> fresh_data (Some [])"
    by (simp_all add: fresh_data_def)
  have e1: "find (\<lambda>(q, a). re_literal False q
                (stdoutErr (receive session_ab5 (Some '' Continue''))) \<noteq> None)
              (newQA tables_cs) = Some (''Continue'' @ custom_end_txt, ''y'' @ [newline])"
    by code_simp
  have e2: "find (\<lambda>(q, a). re_literal False q
                (stdoutErr (receive session_ab5 (Some '' name: ''))) \<noteq> None)
              (newQA tables_cs) = None"
    by code_simp
  have e3: "find (\<lambda>(q, a). re_literal False q
                (stdoutErr (receive session_ab5 (Some '' name: ''))) \<noteq> None)
              (newstdQA tables_cs) = Some (''name:'' @ raw_end_txt, ''joe'' @ [newline])"
    by code_simp
  have a0: "answers_sent session_ab5 = []"
    by (simp add: session_ab5_def)
  show ?thesis
    using f e1 e2 e3 a0
      answer_per_turn [of "Some '' Continue''" re_literal tables_cs True session_ab5]
      answer_per_turn [of "Some '' name: ''" re_literal tables_cs True session_ab5]
      answer_per_turn [of "Some []" re_literal tables_cs True
        "session_ab5\<lparr>stdoutErr := ''Continue''\<rparr>"]
    by simp
qed





lemma answer_or_count_kill_calls [simp]:
  "kill_calls (answer_or_count re t tmpOut s) = kill_calls s"
  "stdoutErr (answer_or_count re t tmpOut s) = stdoutErr s"
  by (simp_all add: answer_or_count_def split: option.splits)









text \<open>
  A whole run: a child that never prints is killed at the 22nd poll, the first poll
  having recorded the length 0 of the buffer.
\<close>

lemma run_cmd_qa_silent_child:
  "run_cmd_qa re_literal env0 proc_silent ''./configure'' [(''Continue'', ''y'')] [] True False
     True (RBool True) [] world0
     = (world0\<lparr>launched := [''./configure''], kills := [Killpg, Kill]\<rparr>, Raises (HangTimeout []))"
  by code_simp

section \<open>The result of a run and the scan of its output\<close>

lemma not_goes_on: "\<not> loop_goes_on ec \<Longrightarrow> ec = Some (ec_value ec)"
  by (cases ec) (auto simp: loop_goes_on_def ec_value_def)

lemma drain_returns:
  "drain out ec obs = Returns (out', c) \<Longrightarrow>
   find (\<lambda>ec. \<not> loop_goes_on ec) (ec # map snd obs) = Some (Some c)
   \<and> out' = out @ concat (map (\<lambda>ob. chunk (fst ob))
               (take (length (takeWhile loop_goes_on (ec # map snd obs))) obs))"
proof (induction obs arbitrary: out ec)
  case Nil
  then show ?case
    by (auto simp: not_goes_on [symmetric] split: if_splits)
next
  case (Cons ob obs)
  obtain r ec' where ob: "ob = (r, ec')" by (cases ob)
  show ?case
  proof (cases "loop_goes_on ec")
    case True
    with Cons.prems ob obtain x where r: "r = Some x"
      and d: "drain (out @ x) ec' obs = Returns (out', c)"
      by (auto split: option.splits)
    from Cons.IH [OF d] show ?thesis
      using True ob r by (simp add: chunk_def)
  next
    case False
    with Cons.prems ob show ?thesis
      by (auto simp: not_goes_on [symmetric])
  qed
qed



lemma result_shape_eq:
  "result_shape simple out ec = (if simple then PBool (ec = 0) else PPair out ec)"
  by (simp add: result_shape_def)

lemma finish_run_returns:
  "finish_run e re log_ok log_all simple regexp out ec w = (w', Returns r) \<Longrightarrow>
   r = result_shape simple out ec"
  by (auto simp: finish_run_def split: if_splits prod.splits outcome.splits)

lemma run_cmd_returns:
  assumes "run_cmd re e p cmd log_ok log_all simple inp regexp log_output w = (w', Returns r)"
  shows "\<exists>ec. child_exit_code p = Some ec \<and> r = result_shape simple (captured p) ec"
proof -
  from assms have "\<exists>out ec t. drain [] (poll0 p) (rounds p) = Returns (out, ec)
      \<and> final_read p = Some t \<and> r = result_shape simple (out @ t) ec"
    by (auto simp: run_cmd_def Let_def split: if_splits sum.splits outcome.splits option.splits
        dest!: finish_run_returns)
  then obtain out ec t where d: "drain [] (poll0 p) (rounds p) = Returns (out, ec)"
    and f: "final_read p = Some t"
    and r: "r = result_shape simple (out @ t) ec"
    by blast
  from drain_returns [OF d] f r show ?thesis
    by (simp add: child_exit_code_def captured_def turns_taken_def chunk_def)
qed









lemma scan_lines_eq:
  "scan_lines srch ls res cnt
     = (res @ matching_lines srch ls, cnt + length (matching_lines srch ls))"
  by (induction ls arbitrary: res cnt)
     (auto simp: matching_lines_def List.map_filter_simps split: option.splits)

lemma parselogForError_eq:
  "re_compiles e default_regexp \<Longrightarrow>
   parselogForError e re buf (RBool True) w
     = (w\<lparr>errorsFoundInLog := errorsFoundInLog w
            + length (matching_lines (re True default_regexp) (split_on newline buf))\<rparr>,
        Returns (matching_lines (re True default_regexp) (split_on newline buf)))"
  "re_compiles e rx \<Longrightarrow>
   parselogForError e re buf (RStr rx) w
     = (w\<lparr>errorsFoundInLog := errorsFoundInLog w
            + length (matching_lines (re True rx) (split_on newline buf))\<rparr>,
        Returns (matching_lines (re True rx) (split_on newline buf)))"
  by (simp_all add: parselogForError_def scan_lines_eq)

lemma parselogForError_raises:
  "\<not> re_compiles e default_regexp \<Longrightarrow>
   parselogForError e re buf (RBool True) w = (w, Raises ReError)"
  "\<not> re_compiles e rx \<Longrightarrow> parselogForError e re buf (RStr rx) w = (w, Raises ReError)"
  "parselogForError e re buf ROther w = (w, Raises InvalidRegExp)"
  "parselogForError e re buf RNone w = (w, Raises InvalidRegExp)"
  "parselogForError e re buf (RBool False) w = (w, Raises InvalidRegExp)"
  by (simp_all add: parselogForError_def)

lemma finish_run_scan_ok:
  assumes "scan_ok e regexp"
  shows "snd (finish_run e re log_ok log_all simple regexp out ec w)
           = (if ec \<noteq> 0 \<and> (log_all \<or> log_ok) then Raises NonZeroExit
              else Returns (if simple then PBool (ec = 0) else PPair out ec))"
    and "fst (finish_run e re log_ok log_all simple regexp out ec w)
           = w\<lparr>errorsFoundInLog :=
                  errorsFoundInLog (fst (finish_run e re log_ok log_all simple regexp out ec w))\<rparr>"
proof -
  consider (off) "\<not> truthy_regexp regexp"
    | (dflt) "regexp = RBool True" "re_compiles e default_regexp"
    | (str) rx where "regexp = RStr rx" "rx \<noteq> []" "re_compiles e rx"
    using assms by (cases regexp) (auto simp: scan_ok_def truthy_regexp_def)
  then have "snd (finish_run e re log_ok log_all simple regexp out ec w)
           = (if ec \<noteq> 0 \<and> (log_all \<or> log_ok) then Raises NonZeroExit
              else Returns (if simple then PBool (ec = 0) else PPair out ec))
      \<and> fst (finish_run e re log_ok log_all simple regexp out ec w)
           = w\<lparr>errorsFoundInLog :=
                  errorsFoundInLog (fst (finish_run e re log_ok log_all simple regexp out ec w))\<rparr>"
  proof cases
    case off
    then show ?thesis
      by (simp add: finish_run_def result_shape_eq)
  next
    case dflt
    then show ?thesis
      by (simp add: finish_run_def result_shape_eq parselogForError_eq truthy_regexp_def)
  next
    case str
    then show ?thesis
      by (simp add: finish_run_def result_shape_eq parselogForError_eq truthy_regexp_def)
  qed
  then show "snd (finish_run e re log_ok log_all simple regexp out ec w)
           = (if ec \<noteq> 0 \<and> (log_all \<or> log_ok) then Raises NonZeroExit
              else Returns (if simple then PBool (ec = 0) else PPair out ec))"
    and "fst (finish_run e re log_ok log_all simple regexp out ec w)
           = w\<lparr>errorsFoundInLog :=
                  errorsFoundInLog (fst (finish_run e re log_ok log_all simple regexp out ec w))\<rparr>"
    by simp_all
qed








lemma captured_proc_make: "captured proc_make = ''compiling done'' @ [newline] @ ''bye''"
  by code_simp

text \<open>
  A child ended by a signal shows a negative code at every poll: the loop does not end
  and the call does not return.
\<close>

lemma run_cmd_no_exit_code:
  "child_exit_code p = None \<Longrightarrow>
   run_cmd re e p cmd log_ok log_all simple inp regexp log_output w \<noteq> (w', Returns r)"
  using run_cmd_returns [of re e p cmd log_ok log_all simple inp regexp log_output w w' r]
  by auto

lemma run_cmd_signal_example:
  "child_exit_code proc_killed = None
   \<and> run_cmd re_literal env0 proc_killed ''make'' True False True None (RBool True) False world0
     = (world0\<lparr>launched := [''make'']\<rparr>, Running)"
  by code_simp

lemma finish_run_scan:
  assumes "scan_ok e regexp"
  shows "snd (finish_run e re log_ok log_all simple regexp out ec w)
     = snd (finish_run e re log_ok log_all simple (RBool False) out ec w)
   \<and> fst (finish_run e re log_ok log_all simple regexp out ec w)
     = (fst (finish_run e re log_ok log_all simple (RBool False) out ec w))
         \<lparr>errorsFoundInLog :=
            errorsFoundInLog (fst (finish_run e re log_ok log_all simple regexp out ec w))\<rparr>"
proof -
  have off: "scan_ok e (RBool False)"
    by (simp add: scan_ok_def)
  have w: "fst (finish_run e re log_ok log_all simple (RBool False) out ec w) = w"
    by (simp add: finish_run_def truthy_regexp_def)
  show ?thesis
    unfolding finish_run_scan_ok(1) [OF assms] finish_run_scan_ok(1) [OF off] w
    using finish_run_scan_ok(2) [OF assms, of re log_ok log_all simple out ec w]
    by simp
qed

lemma run_cmd_scan:
  assumes "scan_ok e regexp"
  shows "snd (run_cmd re e p cmd log_ok log_all simple inp regexp log_output w)
     = snd (run_cmd re e p cmd log_ok log_all simple inp (RBool False) log_output w)
   \<and> fst (run_cmd re e p cmd log_ok log_all simple inp regexp log_output w)
     = (fst (run_cmd re e p cmd log_ok log_all simple inp (RBool False) log_output w))
         \<lparr>errorsFoundInLog :=
            errorsFoundInLog (fst (run_cmd re e p cmd log_ok log_all simple inp regexp log_output w))\<rparr>"
  unfolding run_cmd_def Let_def
  using finish_run_scan [OF assms, of re log_ok log_all simple]
  by (auto split: sum.splits outcome.splits option.splits prod.splits)

lemma run_cmd_qa_scan:
  assumes "scan_ok e regexp"
  shows "snd (run_cmd_qa re e p cmd qa no_qa log_ok log_all simple regexp std_qa w)
     = snd (run_cmd_qa re e p cmd qa no_qa log_ok log_all simple (RBool False) std_qa w)
   \<and> fst (run_cmd_qa re e p cmd qa no_qa log_ok log_all simple regexp std_qa w)
     = (fst (run_cmd_qa re e p cmd qa no_qa log_ok log_all simple (RBool False) std_qa w))
         \<lparr>errorsFoundInLog :=
            errorsFoundInLog (fst (run_cmd_qa re e p cmd qa no_qa log_ok log_all simple regexp std_qa w))\<rparr>"
  unfolding run_cmd_qa_def Let_def
  using finish_run_scan [OF assms, of re log_ok log_all simple]
  by (auto split: sum.splits outcome.splits option.splits prod.splits)

text \<open>
  C9, as the claim states it, fails: the scan can make a run fail. A child ends with
  exit code 0 and the call returns true when the scan is off; with the pattern \<^verbatim>\<open>(\<close>,
  which \<^verbatim>\<open>re.compile\<close> rejects, the same call raises in the scanner, and so it does
  with a true \<^verbatim>\<open>regexp\<close> that is neither a boolean nor a string.
\<close>

theorem error_scan_raises_counterexample:
  "run_cmd re_literal env0 proc_make ''make'' True False True None (RStr ''('') False world0
     = (world0\<lparr>launched := [''make'']\<rparr>, Raises ReError)
   \<and> run_cmd re_literal env0 proc_make ''make'' True False True None ROther False world0
     = (world0\<lparr>launched := [''make'']\<rparr>, Raises InvalidRegExp)
   \<and> run_cmd re_literal env0 proc_make ''make'' True False True None (RBool False) False world0
     = (world0\<lparr>launched := [''make'']\<rparr>, Returns (PBool True))
   \<and> child_exit_code proc_make = Some 0"
  by code_simp

text \<open>
  C9, amended. \<^verbatim>\<open>parselogForError\<close>, with the default pattern or with a pattern of the
  caller that \<^verbatim>\<open>re.compile\<close> accepts, returns the lines of the text in which the pattern
  is found and adds their number to the counter \<^verbatim>\<open>errorsFoundInLog\<close>; with a pattern
  that \<^verbatim>\<open>re.compile\<close> rejects, or with a true argument that is neither a boolean nor a
  string, it raises. When the scan goes through (\<^verbatim>\<open>regexp\<close> false, or true with a default
  pattern that compiles, or a string that compiles), a call of \<^verbatim>\<open>run_cmd\<close> or of
  \<^verbatim>\<open>run_cmd_qa\<close> has the same outcome (the value returned or the error raised) with
  the scan as without it, and leaves the same state but for the counter: what the scan
  finds never changes the verdict.
\<close>

theorem error_scan_is_advisory:
  "(re_compiles e default_regexp \<longrightarrow>
      parselogForError e re buf (RBool True) w
        = (w\<lparr>errorsFoundInLog := errorsFoundInLog w
               + length (matching_lines (re True default_regexp) (split_on newline buf))\<rparr>,
           Returns (matching_lines (re True default_regexp) (split_on newline buf))))
   \<and> (re_compiles e rx \<longrightarrow>
      parselogForError e re buf (RStr rx) w
        = (w\<lparr>errorsFoundInLog := errorsFoundInLog w
               + length (matching_lines (re True rx) (split_on newline buf))\<rparr>,
           Returns (matching_lines (re True rx) (split_on newline buf))))
   \<and> (\<not> re_compiles e rx \<longrightarrow> parselogForError e re buf (RStr rx) w = (w, Raises ReError))
   \<and> parselogForError e re buf ROther w = (w, Raises InvalidRegExp)
   \<and> (scan_ok e regexp \<longrightarrow>
      snd (run_cmd re e p cmd log_ok log_all simple inp regexp log_output w)
        = snd (run_cmd re e p cmd log_ok log_all simple inp (RBool False) log_output w)
      \<and> fst (run_cmd re e p cmd log_ok log_all simple inp regexp log_output w)
        = (fst (run_cmd re e p cmd log_ok log_all simple inp (RBool False) log_output w))
            \<lparr>errorsFoundInLog :=
               errorsFoundInLog
                 (fst (run_cmd re e p cmd log_ok log_all simple inp regexp log_output w))\<rparr>
      \<and> snd (run_cmd_qa re e p cmd qa no_qa log_ok log_all simple regexp std_qa w)
        = snd (run_cmd_qa re e p cmd qa no_qa log_ok log_all simple (RBool False) std_qa w)
      \<and> fst (run_cmd_qa re e p cmd qa no_qa log_ok log_all simple regexp std_qa w)
        = (fst (run_cmd_qa re e p cmd qa no_qa log_ok log_all simple (RBool False) std_qa w))
            \<lparr>errorsFoundInLog :=
               errorsFoundInLog
                 (fst (run_cmd_qa re e p cmd qa no_qa log_ok log_all simple regexp std_qa w))\<rparr>)"
proof (intro conjI impI)
  assume "re_compiles e default_regexp"
  then show "parselogForError e re buf (RBool True) w
        = (w\<lparr>errorsFoundInLog := errorsFoundInLog w
               + length (matching_lines (re True default_regexp) (split_on newline buf))\<rparr>,
           Returns (matching_lines (re True default_regexp) (split_on newline buf)))"
    by (rule parselogForError_eq)
next
  assume "re_compiles e rx"
  then show "parselogForError e re buf (RStr rx) w
        = (w\<lparr>errorsFoundInLog := errorsFoundInLog w
               + length (matching_lines (re True rx) (split_on newline buf))\<rparr>,
           Returns (matching_lines (re True rx) (split_on newline buf)))"
    by (rule parselogForError_eq)
next
  assume "\<not> re_compiles e rx"
  then show "parselogForError e re buf (RStr rx) w = (w, Raises ReError)"
    by (rule parselogForError_raises)
next
  show "parselogForError e re buf ROther w = (w, Raises InvalidRegExp)"
    by (rule parselogForError_raises)
next
  assume ok: "scan_ok e regexp"
  note r = run_cmd_scan [OF ok, of re p cmd log_ok log_all simple inp log_output w]
  note q = run_cmd_qa_scan [OF ok, of re p cmd qa no_qa log_ok log_all simple std_qa w]
  from r show "snd (run_cmd re e p cmd log_ok log_all simple inp regexp log_output w)
        = snd (run_cmd re e p cmd log_ok log_all simple inp (RBool False) log_output w)"
    by (rule conjunct1)
  from r show "fst (run_cmd re e p cmd log_ok log_all simple inp regexp log_output w)
        = (fst (run_cmd re e p cmd log_ok log_all simple inp (RBool False) log_output w))
            \<lparr>errorsFoundInLog :=
               errorsFoundInLog
                 (fst (run_cmd re e p cmd log_ok log_all simple inp regexp log_output w))\<rparr>"
    by (rule conjunct2)
  from q show "snd (run_cmd_qa re e p cmd qa no_qa log_ok log_all simple regexp std_qa w)
        = snd (run_cmd_qa re e p cmd qa no_qa log_ok log_all simple (RBool False) std_qa w)"
    by (rule conjunct1)
  from q show "fst (run_cmd_qa re e p cmd qa no_qa log_ok log_all simple regexp std_qa w)
        = (fst (run_cmd_qa re e p cmd qa no_qa log_ok log_all simple (RBool False) std_qa w))
            \<lparr>errorsFoundInLog :=
               errorsFoundInLog
                 (fst (run_cmd_qa re e p cmd qa no_qa log_ok log_all simple regexp std_qa w))\<rparr>"
    by (rule conjunct2)
qed

text \<open>
  A text with one line ending in \<^verbatim>\<open>failed\<close>: the counter goes from 0 to 1; the pattern
  \<^verbatim>\<open>(\<close> makes the scanner raise; the default pattern finds nothing in a text without
  a failure; and a run has the same outcome with the scan as without it.
\<close>

theorem error_scan_is_advisory_witness:
  "parselogForError env0 re_literal (''step one failed'' @ [newline] @ ''ok'' @ [newline])
        (RStr (''failed'' @ raw_end_txt)) world0
     = (world0\<lparr>errorsFoundInLog := 1\<rparr>, Returns [(''step one failed'', [])])
   \<and> parselogForError env0 re_literal ''ok'' (RStr ''('') world0 = (world0, Raises ReError)
   \<and> parselogForError env0 re_literal ''ok'' (RBool True) world0
     = (world0\<lparr>errorsFoundInLog := 0\<rparr>, Returns [])
   \<and> snd (run_cmd re_literal env0 proc_failed_line ''make'' True False True None
        (RStr (''failed'' @ raw_end_txt)) False world0)
     = snd (run_cmd re_literal env0 proc_failed_line ''make'' True False True None
        (RBool False) False world0)"
proof -
  have c: "re_compiles env0 (''failed'' @ raw_end_txt)" "\<not> re_compiles env0 ''(''"
    "scan_ok env0 (RStr (''failed'' @ raw_end_txt))" "re_compiles env0 default_regexp"
    by code_simp+
  have m0: "matching_lines (re_literal True default_regexp) (split_on newline ''ok'') = []"
    by code_simp
  have m: "matching_lines (re_literal True (''failed'' @ raw_end_txt))
             (split_on newline (''step one failed'' @ [newline] @ ''ok'' @ [newline]))
           = [(''step one failed'', [])]"
    by code_simp
  have z: "errorsFoundInLog world0 = 0"
    by (simp add: world0_def)
  note inst = error_scan_is_advisory [where re = re_literal and e = env0 and p = proc_failed_line
        and cmd = "''make''" and log_ok = True and log_all = False and simple = True
        and inp = None and regexp = "RStr (''failed'' @ raw_end_txt)" and log_output = False
        and w = world0 and rx = "''failed'' @ raw_end_txt"
        and buf = "''step one failed'' @ [newline] @ ''ok'' @ [newline]"]
  note inst2 = error_scan_is_advisory [where re = re_literal and e = env0 and w = world0
        and rx = "''(''" and buf = "''ok''"]
  from inst c(1) have "parselogForError env0 re_literal
        (''step one failed'' @ [newline] @ ''ok'' @ [newline])
        (RStr (''failed'' @ raw_end_txt)) world0
     = (world0\<lparr>errorsFoundInLog := errorsFoundInLog world0
          + length (matching_lines (re_literal True (''failed'' @ raw_end_txt))
              (split_on newline (''step one failed'' @ [newline] @ ''ok'' @ [newline])))\<rparr>,
        Returns (matching_lines (re_literal True (''failed'' @ raw_end_txt))
              (split_on newline (''step one failed'' @ [newline] @ ''ok'' @ [newline]))))"
    by blast
  then have a: "parselogForError env0 re_literal
        (''step one failed'' @ [newline] @ ''ok'' @ [newline])
        (RStr (''failed'' @ raw_end_txt)) world0
     = (world0\<lparr>errorsFoundInLog := 1\<rparr>, Returns [(''step one failed'', [])])"
    by (simp only: m z) simp
  from inst2 c(2) have b: "parselogForError env0 re_literal ''ok'' (RStr ''('') world0
      = (world0, Raises ReError)"
    by blast
  from inst c(3) have d: "snd (run_cmd re_literal env0 proc_failed_line ''make'' True False True
        None (RStr (''failed'' @ raw_end_txt)) False world0)
     = snd (run_cmd re_literal env0 proc_failed_line ''make'' True False True None
        (RBool False) False world0)"
    by blast
  from inst2 c(4) have "parselogForError env0 re_literal ''ok'' (RBool True) world0
      = (world0\<lparr>errorsFoundInLog := errorsFoundInLog world0
           + length (matching_lines (re_literal True default_regexp) (split_on newline ''ok''))\<rparr>,
         Returns (matching_lines (re_literal True default_regexp) (split_on newline ''ok'')))"
    by blast
  then have b0: "parselogForError env0 re_literal ''ok'' (RBool True) world0
      = (world0\<lparr>errorsFoundInLog := 0\<rparr>, Returns [])"
    by (simp only: m0 z) simp
  from a b b0 d show ?thesis
    by (intro conjI)
qed

lemma run_cmd_counts_failed_line:
  "run_cmd re_literal env0 proc_failed_line ''make'' True False True None
     (RStr (''failed'' @ raw_end_txt)) False world0
     = (world0\<lparr>launched := [''make''], errorsFoundInLog := 1\<rparr>, Returns (PBool True))"
  by code_simp

section \<open>The answers sent by run_cmd_qa\<close>

text \<open>
  C8, as the claim states it, fails for an answer that ends in several newlines: the
  answer \<^verbatim>\<open>joe\<close> followed by two newlines, given for the standard question \<^verbatim>\<open>name:\<close>
  or for the custom question \<^verbatim>\<open>name:\<close>, is sent with its two newlines.
\<close>

theorem answer_newlines_counterexample:
  "stdin_data (fst (run_cmd_qa re_literal env0 proc_name ''./install'' [] [] True False True
      (RBool True) [(''name:'', ''joe'' @ [newline, newline])] world0))
     = [''joe'' @ [newline, newline]]
   \<and> stdin_data (fst (run_cmd_qa re_literal env0 proc_name ''./install''
      [(''name:'', ''joe'' @ [newline, newline])] [] True False True (RBool True) [] world0))
     = [''joe'' @ [newline, newline]]
   \<and> \<not> ends_in_one_newline (''joe'' @ [newline, newline])"
  by code_simp

lemma add_newline_cases:
  "endswith_newline (add_newline a)"
  "endswith_newline a \<Longrightarrow> add_newline a = a"
  "\<not> endswith_newline a \<Longrightarrow> add_newline a = a @ [newline]"
  "\<not> endswith_newline a \<Longrightarrow> ends_in_one_newline (add_newline a)"
  by (auto simp: add_newline_def endswith_newline_def ends_in_one_newline_def)

lemma dict_set_entry: "(k', v') \<in> set (dict_set k v d) \<Longrightarrow> v' = v \<or> (k', v') \<in> set d"
  by (induction d) (auto split: if_splits)

lemma dict_set_values: "snd ` set (dict_set k v d) \<subseteq> insert v (snd ` set d)"
  using dict_set_entry [of _ _ k v d] by force

lemma processQA_answer: "processQA re q a = Inr (a', rx) \<Longrightarrow> a' = add_newline a"
  by (auto simp: processQA_def Let_def split: if_splits)

lemma build_newQA_values:
  "build_newQA re qa acc = Inr nqa \<Longrightarrow>
   snd ` set nqa \<subseteq> snd ` set acc \<union> add_newline ` snd ` set qa"
proof (induction qa arbitrary: acc)
  case Nil
  then show ?case by simp
next
  case (Cons qa1 qa)
  obtain q a where qa1: "qa1 = (q, a)" by (cases qa1)
  from Cons.prems qa1 obtain a' rx where p: "processQA re q a = Inr (a', rx)"
    and b: "build_newQA re qa (dict_set rx a' acc) = Inr nqa"
    by (auto split: sum.splits)
  from Cons.IH [OF b] dict_set_values [of rx a' acc] processQA_answer [OF p] qa1
  show ?case by auto
qed

lemma build_newstdQA_values:
  "snd ` set (build_newstdQA std_qa acc) \<subseteq> snd ` set acc \<union> add_newline ` snd ` set std_qa"
proof (induction std_qa arbitrary: acc)
  case Nil
  then show ?case by simp
next
  case (Cons qa1 std_qa)
  obtain q a where qa1: "qa1 = (q, a)" by (cases qa1)
  from Cons.IH [of "dict_set (q @ raw_end_txt) (add_newline a) acc"]
    dict_set_values [of "q @ raw_end_txt" "add_newline a" acc] qa1
  show ?case by auto
qed

lemma first_match_value: "first_match tst tbl = Some a \<Longrightarrow> a \<in> snd ` set tbl"
  by (induction tbl) (auto split: if_splits)

lemma qa_iter_sent:
  "\<exists>x. answers_sent (fst (qa_iter re t k s r)) = answers_sent s @ x
       \<and> set x \<subseteq> snd ` set (newQA t) \<union> snd ` set (newstdQA t)"
  by (auto simp: qa_iter_def answer_or_count_def split: option.splits dest: first_match_value)

lemma qa_loop_sent:
  "\<exists>x. answers_sent (fst (qa_loop re t k s ec obs)) = answers_sent s @ x
       \<and> set x \<subseteq> snd ` set (newQA t) \<union> snd ` set (newstdQA t)"
proof (induction obs arbitrary: s ec)
  case Nil
  then show ?case by simp
next
  case (Cons ob obs)
  obtain r ec' where ob: "ob = (r, ec')" by (cases ob)
  obtain x where x: "answers_sent (fst (qa_iter re t k s r)) = answers_sent s @ x"
    "set x \<subseteq> snd ` set (newQA t) \<union> snd ` set (newstdQA t)"
    using qa_iter_sent by blast
  obtain y where y: "answers_sent (fst (qa_loop re t k (fst (qa_iter re t k s r)) ec' obs))
      = answers_sent (fst (qa_iter re t k s r)) @ y"
    "set y \<subseteq> snd ` set (newQA t) \<union> snd ` set (newstdQA t)"
    using Cons.IH by blast
  show ?case
  proof (cases "loop_goes_on ec \<and> snd (qa_iter re t k s r) = None")
    case True
    then have "qa_loop re t k s ec (ob # obs) = qa_loop re t k (fst (qa_iter re t k s r)) ec' obs"
      using ob by (cases "qa_iter re t k s r") auto
    with x y show ?thesis
      by (intro exI [of _ "x @ y"]) simp
  next
    case False
    then have "answers_sent (fst (qa_loop re t k s ec (ob # obs))) = answers_sent s
        \<or> answers_sent (fst (qa_loop re t k s ec (ob # obs))) = answers_sent s @ x"
      using ob x by (cases "qa_iter re t k s r") (auto split: option.splits)
    with x show ?thesis
      by (auto intro: exI [of _ "[]"])
  qed
qed

lemma finish_run_stdin:
  "stdin_data (fst (finish_run e re log_ok log_all simple regexp out ec w)) = stdin_data w"
  by (auto simp: finish_run_def parselogForError_def split: prod.splits outcome.splits
      option.splits regexp_arg.splits bool.splits)

lemma record_session_stdin [simp]:
  "stdin_data (record_session s w) = stdin_data w @ answers_sent s"
  by (simp add: record_session_def)

lemma run_cmd_qa_stdin:
  assumes "build_newQA re qa [] = Inr nqa"
  shows "stdin_data (fst (run_cmd_qa re e p cmd qa no_qa log_ok log_all simple regexp std_qa w))
           = stdin_data w
       \<or> stdin_data (fst (run_cmd_qa re e p cmd qa no_qa log_ok log_all simple regexp std_qa w))
           = stdin_data w @ answers_sent (fst (qa_loop re
               \<lparr>newQA = nqa, newstdQA = build_newstdQA std_qa [],
                new_no_qa = build_new_no_qa no_qa\<rparr>
               (killpg_ok p) session0 (poll0 p) (rounds p)))"
proof (cases "suse_hack e cmd")
  case (Inl err)
  then show ?thesis
    by (simp add: run_cmd_qa_def)
next
  case (Inr cmd')
  let ?t = "\<lparr>newQA = nqa, newstdQA = build_newstdQA std_qa [],
            new_no_qa = build_new_no_qa no_qa\<rparr>"
  obtain s oc where l: "qa_loop re ?t (killpg_ok p) session0 (poll0 p) (rounds p) = (s, oc)"
    by (cases "qa_loop re ?t (killpg_ok p) session0 (poll0 p) (rounds p)")
  show ?thesis
  proof (cases "(log_all \<and> \<not> tmpfile_ok e) \<or> \<not> spawn_ok p")
    case True
    then show ?thesis
      using Inr assms by (auto simp: run_cmd_qa_def)
  next
    case False
    then show ?thesis
      using Inr assms l
      by (cases oc) (simp_all add: run_cmd_qa_def finish_run_stdin)
  qed
qed

lemma run_cmd_qa_sent:
  "\<exists>sent. stdin_data (fst (run_cmd_qa re e p cmd qa no_qa log_ok log_all simple regexp std_qa w))
            = stdin_data w @ sent
       \<and> set sent \<subseteq> add_newline ` snd ` (set qa \<union> set std_qa)"
proof (cases "build_newQA re qa []")
  case (Inl err)
  then have "stdin_data (fst (run_cmd_qa re e p cmd qa no_qa log_ok log_all simple regexp std_qa w))
            = stdin_data w @ []"
    by (cases "suse_hack e cmd") (simp_all add: run_cmd_qa_def)
  then show ?thesis
    by (intro exI [of _ "[]"]) simp
next
  case (Inr nqa)
  let ?t = "\<lparr>newQA = nqa, newstdQA = build_newstdQA std_qa [], new_no_qa = build_new_no_qa no_qa\<rparr>"
  let ?l = "qa_loop re ?t (killpg_ok p) session0 (poll0 p) (rounds p)"
  from qa_loop_sent [of re ?t "killpg_ok p" session0 "poll0 p" "rounds p"]
  obtain x where x: "answers_sent (fst ?l) = x"
    "set x \<subseteq> snd ` set nqa \<union> snd ` set (build_newstdQA std_qa [])"
    by (auto simp: session0_def)
  have nq: "snd ` set nqa \<subseteq> add_newline ` snd ` set qa"
    using build_newQA_values [OF Inr] by simp
  have ns: "snd ` set (build_newstdQA std_qa []) \<subseteq> add_newline ` snd ` set std_qa"
    using build_newstdQA_values [of std_qa "[]"] by simp
  have "set x \<subseteq> add_newline ` snd ` set qa \<union> add_newline ` snd ` set std_qa"
    using x(2) nq ns by (meson Un_mono subset_trans)
  then have sub: "set x \<subseteq> add_newline ` snd ` (set qa \<union> set std_qa)"
    by (simp add: image_Un)
  from run_cmd_qa_stdin [OF Inr, of e p cmd no_qa log_ok log_all simple regexp std_qa w] x(1)
  consider "stdin_data (fst (run_cmd_qa re e p cmd qa no_qa log_ok log_all simple regexp std_qa w))
              = stdin_data w @ []"
    | "stdin_data (fst (run_cmd_qa re e p cmd qa no_qa log_ok log_all simple regexp std_qa w))
              = stdin_data w @ x"
    by auto
  then show ?thesis
  proof cases
    case 1
    then show ?thesis by (intro exI [of _ "[]"]) simp
  next
    case 2
    with sub show ?thesis by (intro exI [of _ x]) simp
  qed
qed

text \<open>
  C8, amended. Every string that \<^verbatim>\<open>run_cmd_qa\<close> sends to the child is the answer of a
  custom or standard entry after \<^verbatim>\<open>if not a.endswith('\n'): a += '\n'\<close>, so it ends in a
  newline: an answer that does not end in a newline is sent with one newline appended,
  and then ends in exactly one; an answer that ends in one or in several newlines is
  sent as it is.
\<close>

theorem answers_sent_end_in_newline:
  "(\<exists>sent. stdin_data (fst (run_cmd_qa re e p cmd qa no_qa log_ok log_all simple regexp std_qa w))
             = stdin_data w @ sent
        \<and> (\<forall>a \<in> set sent. \<exists>ans \<in> snd ` (set qa \<union> set std_qa). a = add_newline ans))
   \<and> endswith_newline (add_newline ans)
   \<and> (endswith_newline ans \<longrightarrow> add_newline ans = ans)
   \<and> (\<not> endswith_newline ans
        \<longrightarrow> add_newline ans = ans @ [newline] \<and> ends_in_one_newline (add_newline ans))"
proof (intro conjI impI)
  obtain sent where s1:
    "stdin_data (fst (run_cmd_qa re e p cmd qa no_qa log_ok log_all simple regexp std_qa w))
       = stdin_data w @ sent"
    and s2: "set sent \<subseteq> add_newline ` snd ` (set qa \<union> set std_qa)"
    using run_cmd_qa_sent [of re e p cmd qa no_qa log_ok log_all simple regexp std_qa w]
    by (elim exE conjE)
  have "\<forall>a \<in> set sent. \<exists>ans \<in> snd ` (set qa \<union> set std_qa). a = add_newline ans"
  proof
    fix a
    assume "a \<in> set sent"
    with s2 have "a \<in> add_newline ` snd ` (set qa \<union> set std_qa)" ..
    then show "\<exists>ans \<in> snd ` (set qa \<union> set std_qa). a = add_newline ans"
      by (rule imageE) (rule bexI)
  qed
  with s1 show "\<exists>sent. stdin_data (fst (run_cmd_qa re e p cmd qa no_qa log_ok log_all simple regexp std_qa w))
             = stdin_data w @ sent
        \<and> (\<forall>a \<in> set sent. \<exists>ans \<in> snd ` (set qa \<union> set std_qa). a = add_newline ans)"
    by (intro exI [of _ sent] conjI)
next
  show "endswith_newline (add_newline ans)"
    by (rule add_newline_cases)
next
  assume "endswith_newline ans"
  then show "add_newline ans = ans"
    by (rule add_newline_cases)
next
  assume "\<not> endswith_newline ans"
  then show "add_newline ans = ans @ [newline]"
    by (rule add_newline_cases)
next
  assume "\<not> endswith_newline ans"
  then show "ends_in_one_newline (add_newline ans)"
    by (rule add_newline_cases)
qed

text \<open>The answers \<^verbatim>\<open>joe\<close>, without a newline, and \<^verbatim>\<open>bye\<close> with one.\<close>

theorem answers_sent_end_in_newline_witness:
  "(\<exists>sent. stdin_data (fst (run_cmd_qa re_literal env0 proc_name ''./install''
         [(''thanks'', ''bye'' @ [newline])] [] True False True (RBool True) [(''name:'', ''joe'')]
         world0)) = stdin_data world0 @ sent
        \<and> (\<forall>a \<in> set sent. \<exists>ans \<in> snd ` (set [(''thanks'', ''bye'' @ [newline])]
               \<union> set [(''name:'', ''joe'')]). a = add_newline ans))
   \<and> add_newline ''joe'' = ''joe'' @ [newline]
   \<and> ends_in_one_newline (add_newline ''joe'')
   \<and> add_newline (''bye'' @ [newline]) = ''bye'' @ [newline]"
proof -
  have b: "\<not> endswith_newline ''joe''" "endswith_newline (''bye'' @ [newline])"
    by (simp_all add: endswith_newline_def newline_def)
  have p1: "(\<exists>sent. stdin_data (fst (run_cmd_qa re_literal env0 proc_name ''./install''
         [(''thanks'', ''bye'' @ [newline])] [] True False True (RBool True) [(''name:'', ''joe'')]
         world0)) = stdin_data world0 @ sent
        \<and> (\<forall>a \<in> set sent. \<exists>ans \<in> snd ` (set [(''thanks'', ''bye'' @ [newline])]
               \<union> set [(''name:'', ''joe'')]). a = add_newline ans))
   \<and> add_newline ''joe'' = ''joe'' @ [newline]
   \<and> ends_in_one_newline (add_newline ''joe'')"
    using b(1)
      answers_sent_end_in_newline [where ans = "''joe''" and re = re_literal and e = env0
        and p = proc_name and cmd = "''./install''" and qa = "[(''thanks'', ''bye'' @ [newline])]"
        and no_qa = "[]" and log_ok = True and log_all = False and simple = True
        and regexp = "RBool True" and std_qa = "[(''name:'', ''joe'')]" and w = world0]
    by blast
  have p2: "add_newline (''bye'' @ [newline]) = ''bye'' @ [newline]"
    using b(2)
      answers_sent_end_in_newline [where ans = "''bye'' @ [newline]" and re = re_literal
        and e = env0 and p = proc_name and cmd = "''./install''" and qa = "[]"
        and no_qa = "[]" and log_ok = True and log_all = False and simple = True
        and regexp = "RBool True" and std_qa = "[]" and w = world0]
    by blast
  from p1 p2 show ?thesis
    by blast
qed

lemma run_cmd_qa_two_answers:
  "stdin_data (fst (run_cmd_qa re_literal env0 proc_name ''./install''
      [(''thanks'', ''bye'' @ [newline])] [] True False True (RBool True) [(''name:'', ''joe'')]
      world0))
     = [''joe'' @ [newline], ''bye'' @ [newline]]"
  by code_simp

section \<open>Properties of patch and unpack\<close>









lemma patch_ready_unfold:
  assumes "patch_ready f w patchFile dest fn"
  shows "patch re e f pr patchFile dest fn False level w =
     (let apatch = abspath f (cwd w) patchFile;
          adest = abspath f (cwd w) dest;
          w1 = w\<lparr>cwd := adest\<rparr>
      in (case (case level of
                  None \<Rightarrow> determine_level f adest apatch
                | Some l \<Rightarrow> if l \<noteq> 0 then Inr l else determine_level f adest apatch) of
            Inl err \<Rightarrow> (w1, Raises err)
          | Inr p \<Rightarrow>
             (case run_cmd re e pr (patchCmd p apatch) True False True None (RBool True)
                     False w1 of
                (w2, Returns r) \<Rightarrow>
                  if r = PBool False then (w2, Raises PatchFailed) else (w2, Returns r)
              | (w2, Raises err) \<Rightarrow> (w2, Raises err)
              | (w2, Running) \<Rightarrow> (w2, Running))))"
proof -
  from assms have a: "py_isfile f (cwd w) patchFile" "py_isdir f (cwd w) dest"
    "chdir_ok f (abspath f (cwd w) dest)"
    "\<not> (case fn of None \<Rightarrow> False | Some n \<Rightarrow> n \<noteq> [] \<and> \<not> py_isfile f (cwd w) n)"
    by (auto simp: patch_ready_def split: option.splits)
  show ?thesis
    unfolding patch_def Let_def using a by (simp only: if_False if_True not_not simp_thms)
qed

lemma finish_run_frame:
  "cwd (fst (finish_run e re log_ok log_all simple regexp out ec w)) = cwd w"
  "launched (fst (finish_run e re log_ok log_all simple regexp out ec w)) = launched w"
  by (auto simp: finish_run_def parselogForError_def split: prod.splits outcome.splits
      option.splits regexp_arg.splits bool.splits)

lemma run_cmd_cwd:
  "cwd (fst (run_cmd re e p cmd log_ok log_all simple inp regexp log_output w)) = cwd w"
  by (auto simp: run_cmd_def Let_def finish_run_frame split: sum.splits outcome.splits
      option.splits prod.splits)


lemma patch_with_level:
  assumes "patch_ready f w patchFile dest fn"
    and "(case level of
            None \<Rightarrow> determine_level f (abspath f (cwd w) dest) (abspath f (cwd w) patchFile)
          | Some l \<Rightarrow> if l \<noteq> 0 then Inr l
                      else determine_level f (abspath f (cwd w) dest) (abspath f (cwd w) patchFile))
         = Inr p"
  shows "fst (patch re e f pr patchFile dest fn False level w)
           = fst (run_cmd re e pr (patchCmd p (abspath f (cwd w) patchFile)) True False True None
                    (RBool True) False (w\<lparr>cwd := abspath f (cwd w) dest\<rparr>))"
  unfolding patch_ready_unfold [OF assms(1)] Let_def assms(2)
  by (simp split: prod.splits outcome.splits)

lemma patch_without_level:
  assumes "patch_ready f w patchFile dest fn"
    and "(case level of
            None \<Rightarrow> determine_level f (abspath f (cwd w) dest) (abspath f (cwd w) patchFile)
          | Some l \<Rightarrow> if l \<noteq> 0 then Inr l
                      else determine_level f (abspath f (cwd w) dest) (abspath f (cwd w) patchFile))
         = Inl err"
  shows "patch re e f pr patchFile dest fn False level w
           = (w\<lparr>cwd := abspath f (cwd w) dest\<rparr>, Raises err)"
  unfolding patch_ready_unfold [OF assms(1)] Let_def assms(2)
  by simp



text \<open>
  C10, as the claim states it, fails for a call of \<^verbatim>\<open>patch\<close> that is not a copy and
  whose patch file is missing: the call ends at its first check and the working
  directory stays \<^verbatim>\<open>/home\<close>, not the target directory \<^verbatim>\<open>/target\<close>.
\<close>

theorem patch_keeps_cwd_counterexample:
  "patch re_literal env0 fs_nothing proc_make ''fix.patch'' ''/target'' None False None world0
     = (world0, Raises MissingFile)
   \<and> cwd world0 = ''/home''
   \<and> abspath fs_nothing (cwd world0) ''/target'' = ''/target''"
  by code_simp

lemma patch_cwd:
  assumes "patch_ready f w patchFile dest fn"
  shows "cwd (fst (patch re e f pr patchFile dest fn False level w)) = abspath f (cwd w) dest"
proof (cases "case level of
            None \<Rightarrow> determine_level f (abspath f (cwd w) dest) (abspath f (cwd w) patchFile)
          | Some l \<Rightarrow> if l \<noteq> 0 then Inr l
                      else determine_level f (abspath f (cwd w) dest) (abspath f (cwd w) patchFile)")
  case (Inl err)
  show ?thesis
    unfolding patch_without_level [OF assms Inl] by simp
next
  case (Inr p)
  show ?thesis
    unfolding patch_with_level [OF assms Inr] run_cmd_cwd by simp
qed

lemma unpack_cwd:
  assumes "unpack re e f f' pr fuel fn dest extraOptions overwrite w = (w', Returns d)"
  shows "findBaseDir fuel f' (abspath f (cwd w) dest) = (cwd w', Returns d)"
proof -
  let ?w1 = "w\<lparr>cwd := abspath f (cwd w) dest\<rparr>"
  from assms obtain c where c: "extractCmd fn overwrite = Inr c"
    and ok: "py_isfile f (cwd w) fn" "chdir_ok f (abspath f (cwd w) dest)" "c \<noteq> []"
    by (auto simp: unpack_def Let_def split: if_splits sum.splits)
  let ?c = "case extraOptions of None \<Rightarrow> c | Some x \<Rightarrow> if x = [] then c else c @ '' '' @ x"
  obtain w2 oc where r: "run_cmd re e pr ?c True False True None (RBool True) False ?w1 = (w2, oc)"
    by (cases "run_cmd re e pr ?c True False True None (RBool True) False ?w1")
  have w2: "cwd w2 = abspath f (cwd w) dest"
    using run_cmd_cwd [of re e pr ?c True False True None "RBool True" False ?w1] r by simp
  from assms c ok r have "(case oc of
        Returns r \<Rightarrow> (case findBaseDir fuel f' (cwd w2) of (wd, oc') \<Rightarrow> (w2\<lparr>cwd := wd\<rparr>, oc'))
      | Raises err \<Rightarrow> (w2, Raises err)
      | Running \<Rightarrow> (w2, Running)) = (w', Returns d)"
    by (auto simp: unpack_def Let_def split: if_splits)
  then show ?thesis
    using w2 by (cases oc; cases "findBaseDir fuel f' (cwd w2)") auto
qed

text \<open>
  C10, amended. A call of \<^verbatim>\<open>unpack\<close> that returns leaves the working directory where
  \<^verbatim>\<open>findBaseDir\<close>, started in the destination directory, stopped. A call of \<^verbatim>\<open>patch\<close>
  that is not a copy, that passed its checks (the patch file is a file, so is the file
  to patch when one is given, the target is a directory) and whose \<^verbatim>\<open>os.chdir\<close>
  succeeded leaves the working directory at the target directory, whether it returns or
  fails later. Neither goes back to the directory of the caller.
\<close>

theorem working_directory_effects:
  "(unpack re e f f' pr fuel fn dest extraOptions overwrite w = (w', Returns d)
      \<longrightarrow> findBaseDir fuel f' (abspath f (cwd w) dest) = (cwd w', Returns d))
   \<and> (patch_ready f w patchFile dest pfn
      \<longrightarrow> cwd (fst (patch re e f pr patchFile dest pfn False level w)) = abspath f (cwd w) dest)"
  using unpack_cwd [of re e f f' pr fuel fn dest extraOptions overwrite w w' d]
    patch_cwd [of f w patchFile dest pfn re e pr level]
  by (intro conjI impI)

text \<open>
  From \<^verbatim>\<open>/home\<close>, unpacking into \<^verbatim>\<open>/build\<close> ends in \<^verbatim>\<open>/build/example-1.0\<close>, and patching
  \<^verbatim>\<open>/target\<close> ends in \<^verbatim>\<open>/target\<close>.
\<close>

theorem working_directory_effects_witness:
  "unpack re_literal env0 fs_unpack fs_unpacked proc_make 5 ''example-1.0.tar.gz'' ''/build'' None
     False world0
     = (world0\<lparr>cwd := ''/build/example-1.0'', launched := [''tar xzf example-1.0.tar.gz'']\<rparr>,
        Returns ''/build/example-1.0'')
   \<and> findBaseDir 5 fs_unpacked (abspath fs_unpack (cwd world0) ''/build'')
     = (''/build/example-1.0'', Returns ''/build/example-1.0'')
   \<and> cwd (fst (patch re_literal env0 fs_patch proc_make ''fix.patch'' ''/target'' None False None
        world0)) = ''/target''
   \<and> cwd world0 = ''/home''"
proof -
  have u: "unpack re_literal env0 fs_unpack fs_unpacked proc_make 5 ''example-1.0.tar.gz''
      ''/build'' None False world0
     = (world0\<lparr>cwd := ''/build/example-1.0'', launched := [''tar xzf example-1.0.tar.gz'']\<rparr>,
        Returns ''/build/example-1.0'')"
    by code_simp
  have ready: "patch_ready fs_patch world0 ''fix.patch'' ''/target'' None"
    by code_simp
  have t: "abspath fs_patch (cwd world0) ''/target'' = ''/target''" "cwd world0 = ''/home''"
    by code_simp+
  have c: "cwd (world0\<lparr>cwd := ''/build/example-1.0'',
      launched := [''tar xzf example-1.0.tar.gz'']\<rparr>) = ''/build/example-1.0''"
    by simp
  note inst = working_directory_effects [where re = re_literal and e = env0 and f = fs_unpack
      and f' = fs_unpacked and pr = proc_make and fuel = 5 and fn = "''example-1.0.tar.gz''"
      and dest = "''/build''" and extraOptions = None and overwrite = False and w = world0
      and w' = "world0\<lparr>cwd := ''/build/example-1.0'',
                 launched := [''tar xzf example-1.0.tar.gz'']\<rparr>"
      and d = "''/build/example-1.0''"]
  from inst u have "findBaseDir 5 fs_unpacked (abspath fs_unpack (cwd world0) ''/build'')
     = (cwd (world0\<lparr>cwd := ''/build/example-1.0'',
           launched := [''tar xzf example-1.0.tar.gz'']\<rparr>), Returns ''/build/example-1.0'')"
    by blast
  then have a: "findBaseDir 5 fs_unpacked (abspath fs_unpack (cwd world0) ''/build'')
     = (''/build/example-1.0'', Returns ''/build/example-1.0'')"
    by (simp only: c)
  from working_directory_effects [where f = fs_patch and w = world0 and patchFile = "''fix.patch''"
      and dest = "''/target''" and pfn = None and re = re_literal and e = env0 and pr = proc_make
      and level = None] ready
  have "cwd (fst (patch re_literal env0 fs_patch proc_make ''fix.patch'' ''/target'' None False
      None world0)) = abspath fs_patch (cwd world0) ''/target''"
    by blast
  then have b: "cwd (fst (patch re_literal env0 fs_patch proc_make ''fix.patch'' ''/target'' None
      False None world0)) = ''/target''"
    by (simp only: t(1))
  from u a b t(2) show ?thesis
    by (intro conjI)
qed

end
